theory Spec2Isabelle
  imports Main
begin

text \<open>
  A model of \<^verbatim>\<open>scab/utilities/batch_cellranger.py\<close>, the batch driver for CellRanger.
  Each class is a record (fields \<open>l_\<close> of \<^verbatim>\<open>Library\<close>, \<open>s_\<close> of \<^verbatim>\<open>Sample\<close>,
  \<open>r_\<close> of \<^verbatim>\<open>Run\<close>, \<open>c_\<close> of \<^verbatim>\<open>Config\<close>). A method is a function that takes
  the object and returns it as the call leaves it. An exception is the \<open>Inl\<close> of a sum.
  What a function asks of the operating system is returned as a list of actions, in
  order, next to its result.
\<close>

section \<open>Python values, errors and the outside world\<close>

text \<open>
  \<^verbatim>\<open>batch_cellranger.py\<close> reads a YAML document with \<^verbatim>\<open>yaml.safe_load\<close> and passes the
  loaded values around untyped. \<open>pyval\<close> is the universe of those values: \<open>None\<close>, booleans,
  integers, strings, lists and dictionaries with string keys, in insertion order.
  (Floats and timestamps, which no function of the module inspects, are left out.)
\<close>

datatype pyval =
    PNone
  | PBool bool
  | PInt int
  | PStr string
  | PList "pyval list"
  | PDict "(string \<times> pyval) list"

text \<open>
  The exceptions the module can raise by itself. \<open>SystemExit\<close> is \<^verbatim>\<open>sys.exit()\<close>. Nothing
  in the module catches an exception, so each of them ends the process.
\<close>

datatype error =
    KeyError string
  | TypeError
  | AttributeError string
  | FileNotFoundError string
  | URLError
  | SystemExit

text \<open>
  What the module asks of the operating system, in the order it asks: a directory that
  is made unless it is there (\<^verbatim>\<open>make_dir\<close>), \<^verbatim>\<open>shutil.copytree\<close>,
  \<^verbatim>\<open>shutil.copy\<close>, a shell command started with \<^verbatim>\<open>subprocess.Popen\<close> and waited
  for, a line printed, and a file opened for writing with the text written to it. Calls
  of the logger are left out.
\<close>

datatype action =
    MakeDir string
  | CopyTree string string
  | CopyFile string string
  | Popen string
  | Print string
  | WriteFile string string

text \<open>
  Everything the module reads from outside itself: \<^verbatim>\<open>os.path.abspath\<close> (which depends on
  the working directory), the built-in formatting of a value that is not a string, the
  built-in \<^verbatim>\<open>hash\<close> of a hashable value, the directory that \<^verbatim>\<open>os.walk\<close> finds holding
  \<^verbatim>\<open>RTAComplete.txt\<close>, the rows of a simple CSV (each a dictionary from
  column to cell), the samples of a sample sheet (id, name and index), the content of a \<^verbatim>\<open>_uiport\<close> file and the answer of the IP echo service.
\<close>

record world =
  abspath :: "string \<Rightarrow> string"
  py_repr :: "pyval \<Rightarrow> string"
  py_hash :: "pyval \<Rightarrow> int"
  rta_root :: "string \<Rightarrow> string option"
  csv_rows :: "string \<Rightarrow> (string \<times> string) list list"
  sheet_samples :: "string \<Rightarrow> (string \<times> string \<times> string) list"
  uiport_file :: "string \<Rightarrow> string option"
  external_ip :: "string option"

text \<open>Truth value of a Python object, as \<^verbatim>\<open>if x:\<close> and \<^verbatim>\<open>all([...])\<close> take it.\<close>

fun truthy :: "pyval \<Rightarrow> bool" where
  "truthy PNone = False"
| "truthy (PBool b) = b"
| "truthy (PInt i) = (i \<noteq> 0)"
| "truthy (PStr s) = (s \<noteq> [])"
| "truthy (PList xs) = (xs \<noteq> [])"
| "truthy (PDict kvs) = (kvs \<noteq> [])"

text \<open>
  \<^verbatim>\<open>f'{v}'\<close> and \<^verbatim>\<open>'{}'.format(v)\<close>: a string is inserted as it is, any other value
  through the interpreter's own formatting.
\<close>

fun py_format :: "world \<Rightarrow> pyval \<Rightarrow> string" where
  "py_format w (PStr s) = s"
| "py_format w v = py_repr w v"

text \<open>\<^verbatim>\<open>d[k]\<close> with a string key \<open>k\<close>.\<close>

fun subscript :: "pyval \<Rightarrow> string \<Rightarrow> error + pyval" where
  "subscript (PDict kvs) k =
     (case map_of kvs k of None \<Rightarrow> Inl (KeyError k) | Some v \<Rightarrow> Inr v)"
| "subscript v k = Inl TypeError"

text \<open>\<^verbatim>\<open>d.get(k, default)\<close>: only a dictionary has the method.\<close>

fun py_get :: "pyval \<Rightarrow> string \<Rightarrow> pyval \<Rightarrow> error + pyval" where
  "py_get (PDict kvs) k d = Inr (case map_of kvs k of None \<Rightarrow> d | Some v \<Rightarrow> v)"
| "py_get v k d = Inl (AttributeError ''get'')"

text \<open>\<^verbatim>\<open>d.items()\<close>.\<close>

fun py_items :: "pyval \<Rightarrow> error + (string \<times> pyval) list" where
  "py_items (PDict kvs) = Inr kvs"
| "py_items v = Inl (AttributeError ''items'')"

text \<open>\<^verbatim>\<open>os.path.abspath(v)\<close>: a value that is not a path raises \<open>TypeError\<close>.\<close>

fun py_abspath :: "world \<Rightarrow> pyval \<Rightarrow> error + string" where
  "py_abspath w (PStr s) = Inr (abspath w s)"
| "py_abspath w v = Inl TypeError"

text \<open>\<^verbatim>\<open>s.endswith(suffix)\<close>.\<close>

definition endswith :: "string \<Rightarrow> string \<Rightarrow> bool" where
  "endswith s suf = (length suf \<le> length s \<and> drop (length s - length suf) s = suf)"

text \<open>\<^verbatim>\<open>os.path.join(a, b)\<close> and \<^verbatim>\<open>os.path.basename(p)\<close> of \<^verbatim>\<open>posixpath\<close>.\<close>

definition path_join :: "string \<Rightarrow> string \<Rightarrow> string" where
  "path_join a b =
     (if b \<noteq> [] \<and> hd b = CHR ''/'' then b
      else if a = [] \<or> last a = CHR ''/'' then a @ b
      else a @ ''/'' @ b)"

definition basename :: "string \<Rightarrow> string" where
  "basename p = rev (takeWhile (\<lambda>c. c \<noteq> CHR ''/'') (rev p))"

text \<open>A string between single quotes, as the shell commands of the module write paths.\<close>

definition quoted :: "string \<Rightarrow> string" where
  "quoted s = [CHR 0x27] @ s @ [CHR 0x27]"


section \<open>Library\<close>

text \<open>
  \<^verbatim>\<open>class Library\<close>: \<^verbatim>\<open>__init__\<close> sets \<^verbatim>\<open>name\<close>, \<^verbatim>\<open>type\<close> and
  \<^verbatim>\<open>_fastq_paths = None\<close>; the class adds the property \<^verbatim>\<open>fastq_paths\<close> and the method
  \<^verbatim>\<open>add_fastq_path\<close>.
\<close>

record Library =
  l_name :: pyval
  l_type :: string
  l_fastq_paths :: "string list option"

definition Library_init :: "pyval \<Rightarrow> string \<Rightarrow> Library" where
  "Library_init name library_type =
     \<lparr>l_name = name, l_type = library_type, l_fastq_paths = None\<rparr>"

text \<open>
  The property \<^verbatim>\<open>fastq_paths\<close>: an unset list is created, stored and returned. The
  result is the list and the library as the read leaves it.
\<close>

definition fastq_paths :: "Library \<Rightarrow> string list \<times> Library" where
  "fastq_paths lib =
     (case l_fastq_paths lib of
        None \<Rightarrow> ([], lib\<lparr>l_fastq_paths := Some []\<rparr>)
      | Some ps \<Rightarrow> (ps, lib))"

text \<open>
  Reading an attribute that an object does not have raises \<open>AttributeError\<close>. The
  attributes of a \<^verbatim>\<open>Library\<close> are the three that \<^verbatim>\<open>__init__\<close> sets and the
  two that the class defines.
\<close>

definition getattr_check :: "string list \<Rightarrow> string \<Rightarrow> error + unit" where
  "getattr_check attrs a = (if a \<in> set attrs then Inr () else Inl (AttributeError a))"

definition Library_attrs :: "string list" where
  "Library_attrs = [''name'', ''type'', ''_fastq_paths'', ''fastq_paths'', ''add_fastq_path'']"

text \<open>
  \<^verbatim>\<open>add_fastq_path\<close> is \<^verbatim>\<open>self.fastq_path.append(os.path.abspath(fastq_path))\<close>: it
  reads the attribute \<^verbatim>\<open>fastq_path\<close> (singular) first, then resolves the path, then
  appends to the list read.
\<close>

definition add_fastq_path :: "world \<Rightarrow> Library \<Rightarrow> pyval \<Rightarrow> error + Library" where
  "add_fastq_path w lib fastq_path =
     (case getattr_check Library_attrs ''fastq_path'' of
        Inl e \<Rightarrow> Inl e
      | Inr _ \<Rightarrow>
          (case fastq_paths lib of
             (ps, lib') \<Rightarrow>
               (case py_abspath w fastq_path of
                  Inl e \<Rightarrow> Inl e
                | Inr p \<Rightarrow> Inr (lib'\<lparr>l_fastq_paths := Some (ps @ [p])\<rparr>))))"


section \<open>Sample\<close>

text \<open>
  \<^verbatim>\<open>class Sample\<close>. \<^verbatim>\<open>__init__\<close> sets \<^verbatim>\<open>name\<close>, the three references,
  \<^verbatim>\<open>_library_dict\<close> and \<^verbatim>\<open>_libraries = None\<close>. The attributes \<^verbatim>\<open>count_path\<close>,
  \<^verbatim>\<open>aggr_path\<close> and \<^verbatim>\<open>id\<close> are read or assigned elsewhere in the module but not
  set by \<^verbatim>\<open>__init__\<close>: \<open>None\<close> here means that the object has no such attribute yet,
  and reading it raises \<open>AttributeError\<close>. No statement of the module assigns
  \<^verbatim>\<open>id\<close>.
\<close>

record Sample =
  s_name :: pyval
  s_gex_reference :: pyval
  s_vdj_reference :: pyval
  s_feature_reference :: pyval
  s_library_dict :: pyval
  s_libraries :: "Library list option"
  s_count_path :: "string option"
  s_aggr_path :: "string option"
  s_id :: "pyval option"

definition Sample_init :: "pyval \<Rightarrow> pyval \<Rightarrow> pyval \<Rightarrow> pyval \<Rightarrow> pyval \<Rightarrow> Sample" where
  "Sample_init name library_dict gex_reference vdj_reference feature_reference =
     \<lparr>s_name = name,
      s_gex_reference = gex_reference,
      s_vdj_reference = vdj_reference,
      s_feature_reference = feature_reference,
      s_library_dict = library_dict,
      s_libraries = None,
      s_count_path = None,
      s_aggr_path = None,
      s_id = None\<rparr>"

text \<open>
  Binding the arguments of a call \<^verbatim>\<open>Sample(...)\<close> to the parameters of
  \<^verbatim>\<open>__init__(self, name, library_dict, gex_reference=None, vdj_reference=None,
  feature_reference=None)\<close>: too many positional arguments, a keyword that is no
  parameter, a parameter given twice and a missing required parameter raise
  \<open>TypeError\<close>.
\<close>

definition Sample_params :: "string list" where
  "Sample_params = [''name'', ''library_dict'', ''gex_reference'', ''vdj_reference'', ''feature_reference'']"

definition bind_args :: "string list \<Rightarrow> nat \<Rightarrow> pyval list \<Rightarrow> (string \<times> pyval) list
    \<Rightarrow> error + (string \<times> pyval) list" where
  "bind_args params required pos kw =
     (let bound = zip params pos @ kw in
      if length params < length pos then Inl TypeError
      else if list_ex (\<lambda>k. k \<notin> set params) (map fst kw) then Inl TypeError
      else if \<not> distinct (map fst bound) then Inl TypeError
      else if list_ex (\<lambda>p. p \<notin> set (map fst bound)) (take required params) then Inl TypeError
      else Inr bound)"

definition arg :: "(string \<times> pyval) list \<Rightarrow> string \<Rightarrow> pyval" where
  "arg bound p = (case map_of bound p of None \<Rightarrow> PNone | Some v \<Rightarrow> v)"

text \<open>A call \<^verbatim>\<open>Sample(...)\<close> with positional and keyword arguments.\<close>

definition Sample_call :: "pyval list \<Rightarrow> (string \<times> pyval) list \<Rightarrow> error + Sample" where
  "Sample_call pos kw =
     (case bind_args Sample_params 2 pos kw of
        Inl e \<Rightarrow> Inl e
      | Inr bound \<Rightarrow>
          Inr (Sample_init (arg bound ''name'') (arg bound ''library_dict'')
                 (arg bound ''gex_reference'') (arg bound ''vdj_reference'')
                 (arg bound ''feature_reference'')))"

text \<open>
  The property \<^verbatim>\<open>libraries\<close>: on the first read one \<^verbatim>\<open>Library(name, lib_type)\<close> is
  built per item \<^verbatim>\<open>(lib_type, name)\<close> of \<^verbatim>\<open>_library_dict\<close> and the list is kept; a
  \<^verbatim>\<open>_library_dict\<close> without \<^verbatim>\<open>items\<close> raises (and the exception ends the
  process, so the sample it leaves behind is not part of the result).
\<close>

definition libraries :: "Sample \<Rightarrow> error + (Library list \<times> Sample)" where
  "libraries s =
     (case s_libraries s of
        Some libs \<Rightarrow> Inr (libs, s)
      | None \<Rightarrow>
          (case py_items (s_library_dict s) of
             Inl e \<Rightarrow> Inl e
           | Inr items \<Rightarrow>
               (let libs = map (\<lambda>(lib_type, name). Library_init name lib_type) items
                in Inr (libs, s\<lparr>s_libraries := Some libs\<rparr>))))"

text \<open>
  \<^verbatim>\<open>_build_config_csv\<close>. The inner loop appends one line per path of a library to the
  text built so far; the outer loop runs it for each library in turn. Reading
  \<^verbatim>\<open>library.fastq_paths\<close> may store an empty list in the library, so the loops return
  the libraries as they leave them.
\<close>

fun fastq_loop :: "world \<Rightarrow> Library \<Rightarrow> string list \<Rightarrow> string \<Rightarrow> string" where
  "fastq_loop w library [] config = config"
| "fastq_loop w library (fastq # rest) config =
     fastq_loop w library rest
       (config @ py_format w (l_name library) @ '','' @ fastq @ '','' @ l_type library @ ''\<newline>'')"

fun library_loop :: "world \<Rightarrow> Library list \<Rightarrow> string \<Rightarrow> string \<times> Library list" where
  "library_loop w [] config = (config, [])"
| "library_loop w (library # rest) config =
     (case fastq_paths library of
        (paths, library') \<Rightarrow>
          (case library_loop w rest (fastq_loop w library' paths config) of
             (config', rest') \<Rightarrow> (config', library' # rest')))"

definition build_config_csv :: "world \<Rightarrow> Sample \<Rightarrow> error + (string \<times> Sample)" where
  "build_config_csv w s =
     (let config = [];
          config = (if s_gex_reference s \<noteq> PNone
                    then config @ ''[gene-expression]\<newline>''
                           @ ''reference,'' @ py_format w (s_gex_reference s) @ ''\<newline>\<newline>''
                    else config);
          config = (if s_vdj_reference s \<noteq> PNone
                    then config @ ''[vdj]\<newline>''
                           @ ''reference,'' @ py_format w (s_vdj_reference s) @ ''\<newline>\<newline>''
                    else config);
          config = (if s_feature_reference s \<noteq> PNone
                    then config @ ''[feature]\<newline>''
                           @ ''reference,'' @ py_format w (s_feature_reference s) @ ''\<newline>\<newline>''
                    else config);
          config = config @ ''[libraries]\<newline>'';
          config = config @ ''fastq_id,fastqs,feature_types\<newline>''
      in case libraries s of
           Inl e \<Rightarrow> Inl e
         | Inr (libs, s') \<Rightarrow>
             (case library_loop w libs config of
                (config', libs') \<Rightarrow> Inr (config', s'\<lparr>s_libraries := Some libs'\<rparr>)))"

text \<open>
  The manifest as the specification words it: the three optional reference sections in
  the fixed order, then the \<^verbatim>\<open>[libraries]\<close> section with its header row and one data
  row per pair of a library and one of its accumulated paths.
\<close>

definition accumulated_paths :: "Library \<Rightarrow> string list" where
  "accumulated_paths lib = (case l_fastq_paths lib of None \<Rightarrow> [] | Some ps \<Rightarrow> ps)"

definition library_path_pairs :: "Library list \<Rightarrow> (Library \<times> string) list" where
  "library_path_pairs libs = concat (map (\<lambda>lib. map (Pair lib) (accumulated_paths lib)) libs)"

definition manifest_section :: "world \<Rightarrow> string \<Rightarrow> pyval \<Rightarrow> string" where
  "manifest_section w header reference =
     (if reference = PNone then []
      else header @ ''\<newline>'' @ ''reference,'' @ py_format w reference @ ''\<newline>\<newline>'')"

definition manifest_data_rows :: "world \<Rightarrow> Library list \<Rightarrow> string list" where
  "manifest_data_rows w libs =
     map (\<lambda>(lib, path). py_format w (l_name lib) @ '','' @ path @ '','' @ l_type lib @ ''\<newline>'')
       (library_path_pairs libs)"

definition manifest_spec :: "world \<Rightarrow> Sample \<Rightarrow> Library list \<Rightarrow> string" where
  "manifest_spec w s libs =
     manifest_section w ''[gene-expression]'' (s_gex_reference s)
     @ manifest_section w ''[vdj]'' (s_vdj_reference s)
     @ manifest_section w ''[feature]'' (s_feature_reference s)
     @ ''[libraries]\<newline>''
     @ ''fastq_id,fastqs,feature_types\<newline>''
     @ concat (manifest_data_rows w libs)"


section \<open>Run\<close>

text \<open>
  \<^verbatim>\<open>class Run\<close>. \<^verbatim>\<open>__init__\<close> reads the run's dictionary of the configuration:
  \<^verbatim>\<open>url\<close>, \<^verbatim>\<open>is_compressed\<close> (default \<^verbatim>\<open>True\<close>) and \<^verbatim>\<open>copy_to_project\<close>
  (default \<^verbatim>\<open>False\<close>) are kept as loaded; \<^verbatim>\<open>path\<close>, \<^verbatim>\<open>samplesheet\<close> and
  \<^verbatim>\<open>simple_csv\<close> are made absolute when present and are \<^verbatim>\<open>None\<close> otherwise.
  The first statement calls \<^verbatim>\<open>config.get\<close>, which only a dictionary has.
\<close>

record Run =
  r_name :: string
  r_config :: pyval
  r_url :: pyval
  r_path :: "string option"
  r_is_compressed :: pyval
  r_samplesheet :: "string option"
  r_simple_csv :: "string option"
  r_copy_to_project :: pyval
  r_fastq_path :: "string option"
  r_libraries :: "Sample list option"

text \<open>\<^verbatim>\<open>os.path.abspath(config[k]) if k in config else None\<close>, for a dictionary.\<close>

definition abspath_if_present :: "world \<Rightarrow> (string \<times> pyval) list \<Rightarrow> string \<Rightarrow> error + string option" where
  "abspath_if_present w kvs k =
     (case map_of kvs k of
        None \<Rightarrow> Inr None
      | Some v \<Rightarrow> (case py_abspath w v of Inl e \<Rightarrow> Inl e | Inr p \<Rightarrow> Inr (Some p)))"

definition dict_get :: "(string \<times> pyval) list \<Rightarrow> string \<Rightarrow> pyval \<Rightarrow> pyval" where
  "dict_get kvs k d = (case map_of kvs k of None \<Rightarrow> d | Some v \<Rightarrow> v)"

definition Run_init :: "world \<Rightarrow> string \<Rightarrow> pyval \<Rightarrow> error + Run" where
  "Run_init w name config =
     (case config of
        PDict kvs \<Rightarrow>
          (case abspath_if_present w kvs ''path'' of
             Inl e \<Rightarrow> Inl e
           | Inr path \<Rightarrow>
          (case abspath_if_present w kvs ''samplesheet'' of
             Inl e \<Rightarrow> Inl e
           | Inr samplesheet \<Rightarrow>
          (case abspath_if_present w kvs ''simple_csv'' of
             Inl e \<Rightarrow> Inl e
           | Inr simple_csv \<Rightarrow>
               Inr \<lparr>r_name = name,
                    r_config = config,
                    r_url = dict_get kvs ''url'' PNone,
                    r_path = path,
                    r_is_compressed = dict_get kvs ''is_compressed'' (PBool True),
                    r_samplesheet = samplesheet,
                    r_simple_csv = simple_csv,
                    r_copy_to_project = dict_get kvs ''copy_to_project'' (PBool False),
                    r_fastq_path = None,
                    r_libraries = None\<rparr>)))
      | _ \<Rightarrow> Inl (AttributeError ''get''))"

text \<open>
  \<^verbatim>\<open>write_log(prefix, dir, stdout, stderr)\<close> as its callers use it: both streams come
  from \<^verbatim>\<open>Popen.communicate()\<close> on pipes opened without a text mode, so they are
  \<^verbatim>\<open>bytes\<close>, never \<^verbatim>\<open>None\<close>. The first file is opened for writing as text and
  \<^verbatim>\<open>f.write(stdout)\<close> is given the bytes, which raises \<open>TypeError\<close>.
\<close>

definition write_log :: "string \<Rightarrow> string \<Rightarrow> action list \<times> (error + unit)" where
  "write_log prefix dir = ([WriteFile (path_join dir (prefix @ ''.stdout'')) []], Inl TypeError)"

text \<open>
  The end of every command runner of the module:
  \<^verbatim>\<open>if log_dir is not None: make_dir(log_subdir); write_log(name, log_subdir, ...)\<close>.
\<close>

definition log_outputs :: "string option \<Rightarrow> string \<Rightarrow> string \<Rightarrow> action list \<times> (error + unit)" where
  "log_outputs log_dir stage prefix =
     (case log_dir of
        None \<Rightarrow> ([], Inr ())
      | Some d \<Rightarrow>
          (let log_subdir = path_join d stage in
           case write_log prefix log_subdir of
             (acts, r) \<Rightarrow> (MakeDir log_subdir # acts, r)))"

text \<open>\<^verbatim>\<open>Run._copy\<close>: \<^verbatim>\<open>shutil.copytree(self.path, destination)\<close>.\<close>

definition copy_run :: "string \<Rightarrow> string \<Rightarrow> action list \<times> (error + string)" where
  "copy_run path destination = ([CopyTree path destination], Inr destination)"

text \<open>
  \<^verbatim>\<open>Run._download\<close>: the command is \<^verbatim>\<open>"wget {} '{}'".format(url, destination)\<close>; the
  result is the destination joined with the basename of the URL, which must be a string.
\<close>

definition download :: "world \<Rightarrow> string \<Rightarrow> pyval \<Rightarrow> string \<Rightarrow> string option
    \<Rightarrow> action list \<times> (error + string)" where
  "download w name url destination log_dir =
     (let destination = abspath w destination;
          wget_cmd = ''wget '' @ py_format w url @ '' '' @ quoted destination;
          acts = [MakeDir destination, Popen wget_cmd]
      in case log_outputs log_dir ''download'' name of
           (lacts, Inl e) \<Rightarrow> (acts @ lacts, Inl e)
         | (lacts, Inr _) \<Rightarrow>
             (case url of
                PStr u \<Rightarrow> (acts @ lacts, Inr (path_join destination (basename u)))
              | _ \<Rightarrow> (acts @ lacts, Inl TypeError)))"

text \<open>
  The extraction command that \<^verbatim>\<open>Run._decompress\<close> selects from the absolute source
  path, or nothing when no branch of the \<^verbatim>\<open>if\<close>/\<^verbatim>\<open>elif\<close> chain matches.
\<close>

definition extraction_command :: "string \<Rightarrow> string \<Rightarrow> string option" where
  "extraction_command source destination =
     (if endswith source ''.tar.gz'' \<or> endswith source ''.tgz''
      then Some (''tar xzvf '' @ quoted source @ '' -C '' @ quoted destination)
      else if endswith source ''.tar''
      then Some (''tar xvf '' @ quoted source @ '' -C '' @ quoted destination)
      else if endswith source ''.zip''
      then Some (''unzip '' @ source @ '' -d '' @ destination)
      else None)"

text \<open>
  \<^verbatim>\<open>Run._decompress\<close>: both paths are made absolute (a source that is \<^verbatim>\<open>None\<close>
  raises), the destination is created, and either the selected command runs or the
  error text is printed and \<^verbatim>\<open>sys.exit()\<close> ends the process. After the command the
  run directory is the walked directory that holds \<^verbatim>\<open>RTAComplete.txt\<close>, joined to the
  destination, or the destination itself.
\<close>

definition decompress :: "world \<Rightarrow> string \<Rightarrow> string option \<Rightarrow> string \<Rightarrow> string option
    \<Rightarrow> action list \<times> (error + string)" where
  "decompress w name source destination log_dir =
     (case source of
        None \<Rightarrow> ([], Inl TypeError)
      | Some src \<Rightarrow>
          (let source = abspath w src;
               destination = abspath w destination
           in case extraction_command source destination of
                None \<Rightarrow>
                  ([MakeDir destination,
                    Print (''ERROR: input file '' @ source @ '' has an unsupported compression type. ''
                           @ ''Only files with .tar, .tar.gz, .tgz or .zip extensions are supported.'')],
                   Inl SystemExit)
              | Some cmd \<Rightarrow>
                  (let acts = [MakeDir destination, Popen cmd] in
                   case log_outputs log_dir ''decompress'' name of
                     (lacts, Inl e) \<Rightarrow> (acts @ lacts, Inl e)
                   | (lacts, Inr _) \<Rightarrow>
                       (acts @ lacts,
                        Inr (case rta_root w destination of
                               None \<Rightarrow> destination
                             | Some root \<Rightarrow> path_join destination root)))))"

text \<open>
  \<^verbatim>\<open>Run.get\<close>: three independent steps, each guarded by the attributes as
  \<^verbatim>\<open>__init__\<close> set them, and each storing its result in \<^verbatim>\<open>self.path\<close>. An
  exception in a step leaves the later steps out.
\<close>

definition get_copy :: "string \<Rightarrow> Run \<Rightarrow> action list \<times> (error + Run)" where
  "get_copy destination run =
     (case r_path run of
        Some p \<Rightarrow>
          (if truthy (r_copy_to_project run) \<and> \<not> truthy (r_is_compressed run)
           then (case copy_run p destination of
                   (acts, Inl e) \<Rightarrow> (acts, Inl e)
                 | (acts, Inr p') \<Rightarrow> (acts, Inr (run\<lparr>r_path := Some p'\<rparr>)))
           else ([], Inr run))
      | None \<Rightarrow> ([], Inr run))"

definition get_download :: "world \<Rightarrow> string \<Rightarrow> string option \<Rightarrow> Run \<Rightarrow> action list \<times> (error + Run)" where
  "get_download w destination log_dir run =
     (if r_url run \<noteq> PNone
      then (case download w (r_name run) (r_url run) destination log_dir of
              (acts, Inl e) \<Rightarrow> (acts, Inl e)
            | (acts, Inr p') \<Rightarrow> (acts, Inr (run\<lparr>r_path := Some p'\<rparr>)))
      else ([], Inr run))"

definition get_decompress :: "world \<Rightarrow> string \<Rightarrow> string option \<Rightarrow> Run \<Rightarrow> action list \<times> (error + Run)" where
  "get_decompress w destination log_dir run =
     (if truthy (r_is_compressed run)
      then (case decompress w (r_name run) (r_path run) destination log_dir of
              (acts, Inl e) \<Rightarrow> (acts, Inl e)
            | (acts, Inr p') \<Rightarrow> (acts, Inr (run\<lparr>r_path := Some p'\<rparr>)))
      else ([], Inr run))"

text \<open>Running one step after another: the actions add up, the first error ends the run.\<close>

definition and_then :: "action list \<times> (error + 'a) \<Rightarrow> ('a \<Rightarrow> action list \<times> (error + 'b))
    \<Rightarrow> action list \<times> (error + 'b)" where
  "and_then m f =
     (case m of
        (acts, Inl e) \<Rightarrow> (acts, Inl e)
      | (acts, Inr x) \<Rightarrow> (case f x of (acts', r) \<Rightarrow> (acts @ acts', r)))"

definition get :: "world \<Rightarrow> string \<Rightarrow> string option \<Rightarrow> Run \<Rightarrow> action list \<times> (error + Run)" where
  "get w raw_dir log_dir run =
     (let destination = path_join (abspath w raw_dir) (r_name run) in
      and_then (get_copy destination run) (\<lambda>run.
      and_then (get_download w destination log_dir run) (\<lambda>run.
      get_decompress w destination log_dir run)))"

text \<open>
  A list comprehension or a loop that builds a list: the elements in order, ended by
  the first exception.
\<close>

fun collect :: "('a \<Rightarrow> error + 'b) \<Rightarrow> 'a list \<Rightarrow> error + 'b list" where
  "collect f [] = Inr []"
| "collect f (x # xs) =
     (case f x of
        Inl e \<Rightarrow> Inl e
      | Inr y \<Rightarrow> (case collect f xs of Inl e \<Rightarrow> Inl e | Inr ys \<Rightarrow> Inr (y # ys)))"

text \<open>
  \<^verbatim>\<open>_parse_samplesheet\<close> builds \<^verbatim>\<open>Sample(s.Sample_ID, name=s.Sample_Name, index=s.index)\<close>
  for each sample of the sheet; \<^verbatim>\<open>_parse_simple_csv\<close> builds
  \<^verbatim>\<open>Sample(r['Sample'], index=r['Index'])\<close> for each row, reading both cells first.
\<close>

definition parse_samplesheet :: "world \<Rightarrow> string \<Rightarrow> error + Sample list" where
  "parse_samplesheet w samplesheet =
     collect (\<lambda>(sample_id, sample_name, index).
                Sample_call [PStr sample_id] [(''name'', PStr sample_name), (''index'', PStr index)])
       (sheet_samples w samplesheet)"

definition parse_simple_csv :: "world \<Rightarrow> string \<Rightarrow> error + Sample list" where
  "parse_simple_csv w simple_csv =
     collect (\<lambda>r.
                case map_of r ''Sample'' of
                  None \<Rightarrow> Inl (KeyError ''Sample'')
                | Some sample \<Rightarrow>
                    (case map_of r ''Index'' of
                       None \<Rightarrow> Inl (KeyError ''Index'')
                     | Some index \<Rightarrow> Sample_call [PStr sample] [(''index'', PStr index)]))
       (csv_rows w simple_csv)"

text \<open>\<^verbatim>\<open>_parse_libraries\<close> returns \<^verbatim>\<open>None\<close> when the run has neither input.\<close>

definition parse_libraries :: "world \<Rightarrow> Run \<Rightarrow> error + Sample list option" where
  "parse_libraries w run =
     (case r_samplesheet run of
        Some sheet \<Rightarrow> (case parse_samplesheet w sheet of Inl e \<Rightarrow> Inl e | Inr xs \<Rightarrow> Inr (Some xs))
      | None \<Rightarrow>
          (case r_simple_csv run of
             Some csv \<Rightarrow> (case parse_simple_csv w csv of Inl e \<Rightarrow> Inl e | Inr xs \<Rightarrow> Inr (Some xs))
           | None \<Rightarrow> Inr None))"

text \<open>The property \<^verbatim>\<open>Run.libraries\<close>: parsed on a read while nothing is stored.\<close>

definition Run_libraries :: "world \<Rightarrow> Run \<Rightarrow> error + (Sample list option \<times> Run)" where
  "Run_libraries w run =
     (case r_libraries run of
        Some xs \<Rightarrow> Inr (Some xs, run)
      | None \<Rightarrow>
          (case parse_libraries w run of
             Inl e \<Rightarrow> Inl e
           | Inr parsed \<Rightarrow> Inr (parsed, run\<lparr>r_libraries := parsed\<rparr>)))"

text \<open>
  \<^verbatim>\<open>library.name in run.libraries\<close>. \<^verbatim>\<open>None\<close> is not iterable. The elements of the
  list are \<^verbatim>\<open>Sample\<close> objects; the class defines no \<^verbatim>\<open>__eq__\<close>, so a loaded value is
  equal to none of them.
\<close>

definition value_equals_sample :: "pyval \<Rightarrow> Sample \<Rightarrow> bool" where
  "value_equals_sample v s = False"

definition name_in_libraries :: "pyval \<Rightarrow> Sample list option \<Rightarrow> error + bool" where
  "name_in_libraries name libs =
     (case libs of
        None \<Rightarrow> Inl TypeError
      | Some xs \<Rightarrow> Inr (list_ex (value_equals_sample name) xs))"

text \<open>
  The binder of \<^verbatim>\<open>main\<close>, for one run whose \<^verbatim>\<open>fastq_path\<close> is set:
  \<^verbatim>\<open>for sample in cfg.samples: for library in sample.libraries:
  if library.name in run.libraries: library.add_fastq_path(run.fastq_path)\<close>.
\<close>

definition option_value :: "string option \<Rightarrow> pyval" where
  "option_value p = (case p of None \<Rightarrow> PNone | Some s \<Rightarrow> PStr s)"

fun bind_libraries :: "world \<Rightarrow> Run \<Rightarrow> Library list \<Rightarrow> error + (Run \<times> Library list)" where
  "bind_libraries w run [] = Inr (run, [])"
| "bind_libraries w run (library # rest) =
     (case Run_libraries w run of
        Inl e \<Rightarrow> Inl e
      | Inr (declared, run') \<Rightarrow>
     (case name_in_libraries (l_name library) declared of
        Inl e \<Rightarrow> Inl e
      | Inr found \<Rightarrow>
     (case (if found then add_fastq_path w library (option_value (r_fastq_path run'))
            else Inr library) of
        Inl e \<Rightarrow> Inl e
      | Inr library' \<Rightarrow>
     (case bind_libraries w run' rest of
        Inl e \<Rightarrow> Inl e
      | Inr (run'', rest') \<Rightarrow> Inr (run'', library' # rest')))))"

fun bind_samples :: "world \<Rightarrow> Run \<Rightarrow> Sample list \<Rightarrow> error + (Run \<times> Sample list)" where
  "bind_samples w run [] = Inr (run, [])"
| "bind_samples w run (sample # rest) =
     (case libraries sample of
        Inl e \<Rightarrow> Inl e
      | Inr (libs, sample') \<Rightarrow>
     (case bind_libraries w run libs of
        Inl e \<Rightarrow> Inl e
      | Inr (run', libs') \<Rightarrow>
     (case bind_samples w run' rest of
        Inl e \<Rightarrow> Inl e
      | Inr (run'', rest') \<Rightarrow> Inr (run'', sample'\<lparr>s_libraries := Some libs'\<rparr> # rest'))))"


section \<open>Config\<close>

text \<open>
  \<^verbatim>\<open>class Config\<close> after \<^verbatim>\<open>_parse_config_file\<close>. The class defines the property
  \<^verbatim>\<open>ops\<close> over the attribute \<^verbatim>\<open>_ops\<close>, which neither \<^verbatim>\<open>__init__\<close> nor
  \<^verbatim>\<open>_parse_config_file\<close> sets: \<open>c_ops\<close> is \<open>None\<close> while the object has no such
  attribute.
\<close>

record Config =
  c_config_file :: string
  c_gex_reference :: pyval
  c_vdj_reference :: pyval
  c_feature_reference :: pyval
  c_uiport :: pyval
  c_cellranger :: pyval
  c_runs :: "Run list"
  c_samples :: "Sample list"
  c_ops :: "pyval option"

text \<open>
  \<^verbatim>\<open>_parse_config_file\<close>, from the document that \<^verbatim>\<open>yaml.safe_load\<close> returned
  (a file that cannot be opened or is not YAML never gets this far): the runs, the three
  reference maps (an empty dictionary when absent), the samples, each built with the
  three maps as its keyword arguments, and the two general options.
\<close>

definition parse_config_file :: "world \<Rightarrow> string \<Rightarrow> pyval \<Rightarrow> error + Config" where
  "parse_config_file w config_file config =
     (case subscript config ''runs'' of Inl e \<Rightarrow> Inl e | Inr runs_section \<Rightarrow>
     (case py_items runs_section of Inl e \<Rightarrow> Inl e | Inr run_items \<Rightarrow>
     (case collect (\<lambda>(name, cfg). Run_init w name cfg) run_items of Inl e \<Rightarrow> Inl e | Inr runs \<Rightarrow>
     (case py_get config ''gex_reference'' (PDict []) of Inl e \<Rightarrow> Inl e | Inr gex_reference \<Rightarrow>
     (case py_get config ''vdj_reference'' (PDict []) of Inl e \<Rightarrow> Inl e | Inr vdj_reference \<Rightarrow>
     (case py_get config ''feature_reference'' (PDict []) of Inl e \<Rightarrow> Inl e | Inr feature_reference \<Rightarrow>
     (case subscript config ''samples'' of Inl e \<Rightarrow> Inl e | Inr samples_section \<Rightarrow>
     (case py_items samples_section of Inl e \<Rightarrow> Inl e | Inr sample_items \<Rightarrow>
     (case collect (\<lambda>(name, lib_dict).
                      Sample_call [PStr name, lib_dict]
                        [(''gex_reference'', gex_reference),
                         (''vdj_reference'', vdj_reference),
                         (''feature_reference'', feature_reference)])
             sample_items of Inl e \<Rightarrow> Inl e | Inr samples \<Rightarrow>
     (case py_get config ''uiport'' (PInt 72647) of Inl e \<Rightarrow> Inl e | Inr uiport \<Rightarrow>
     (case py_get config ''cellranger'' (PStr ''cellranger'') of Inl e \<Rightarrow> Inl e | Inr cellranger \<Rightarrow>
        Inr \<lparr>c_config_file = abspath w config_file,
             c_gex_reference = gex_reference,
             c_vdj_reference = vdj_reference,
             c_feature_reference = feature_reference,
             c_uiport = uiport,
             c_cellranger = cellranger,
             c_runs = runs,
             c_samples = samples,
             c_ops = None\<rparr>)))))))))))"

text \<open>
  The property \<^verbatim>\<open>Config.ops\<close>:
  \<^verbatim>\<open>if self._ops is None: return []\<close>, else \<^verbatim>\<open>return self._ops\<close>.
\<close>

definition Config_ops :: "Config \<Rightarrow> error + pyval" where
  "Config_ops cfg =
     (case c_ops cfg of
        None \<Rightarrow> Inl (AttributeError ''_ops'')
      | Some PNone \<Rightarrow> Inr (PList [])
      | Some ops \<Rightarrow> Inr ops)"

text \<open>
  Reference resolution as the specification words it: the entry of the reference map
  under the sample's name, or the entry under \<^verbatim>\<open>default\<close>.
\<close>

definition resolved_reference :: "(string \<times> pyval) list \<Rightarrow> string \<Rightarrow> pyval option" where
  "resolved_reference reference_map name =
     (case map_of reference_map name of
        Some override \<Rightarrow> Some override
      | None \<Rightarrow> map_of reference_map ''default'')"



section \<open>Operations\<close>

text \<open>\<^verbatim>\<open>'\n'.join(lines)\<close>.\<close>

fun join_lines :: "string list \<Rightarrow> string" where
  "join_lines [] = []"
| "join_lines [l] = l"
| "join_lines (l # ls) = l @ ''\<newline>'' @ join_lines ls"

text \<open>
  The loop of \<^verbatim>\<open>_make_aggr_csv\<close>: for each sample, \<^verbatim>\<open>sample.count_path\<close> is joined
  with \<^verbatim>\<open>'outs/molecule_info.h5'\<close>, then the line \<^verbatim>\<open>'{},{}'.format(sample.id, h5_path)\<close>
  is appended.
\<close>

definition aggr_line :: "world \<Rightarrow> Sample \<Rightarrow> error + string" where
  "aggr_line w sample =
     (case s_count_path sample of
        None \<Rightarrow> Inl (AttributeError ''count_path'')
      | Some count_path \<Rightarrow>
          (let h5_path = path_join count_path ''outs/molecule_info.h5'' in
           case s_id sample of
             None \<Rightarrow> Inl (AttributeError ''id'')
           | Some sample_id \<Rightarrow> Inr (py_format w sample_id @ '','' @ h5_path)))"

definition make_aggr_csv :: "world \<Rightarrow> Sample list \<Rightarrow> string \<Rightarrow> action list \<times> (error + string)" where
  "make_aggr_csv w samples aggr_dir =
     (let aggr_csv = path_join aggr_dir ''aggr.csv'' in
      case collect (aggr_line w) samples of
        Inl e \<Rightarrow> ([], Inl e)
      | Inr rows \<Rightarrow>
          ([WriteFile aggr_csv (join_lines (''library_id,molecule_h5'' # rows))], Inr aggr_csv))"

text \<open>
  \<^verbatim>\<open>cellranger_aggr(samples, group, aggr_dir, normalize='mapped',
  cellranger='cellranger', uiport=None, log_dir=None, debug=False)\<close>. An optional
  argument that the caller leaves out is \<open>None\<close> here and takes the default of the
  signature. The command is
  \<^verbatim>\<open>"cd '{}'" + " && {} count --id {} --csv '{}' --normalize {}"\<close>.
\<close>

definition cellranger_aggr :: "world \<Rightarrow> Sample list \<Rightarrow> string \<Rightarrow> string \<Rightarrow> string option
    \<Rightarrow> pyval option \<Rightarrow> string option \<Rightarrow> action list \<times> (error + string)" where
  "cellranger_aggr w samples group_id aggr_dir normalize_arg cellranger_arg log_dir =
     (let normalize = (case normalize_arg of None \<Rightarrow> ''mapped'' | Some n \<Rightarrow> n);
          cellranger = (case cellranger_arg of None \<Rightarrow> PStr ''cellranger'' | Some c \<Rightarrow> c);
          aggr_dir = abspath w aggr_dir
      in and_then (make_aggr_csv w samples aggr_dir) (\<lambda>aggr_csv.
           (let aggr_cmd = ''cd '' @ quoted aggr_dir
                  @ '' && '' @ py_format w cellranger @ '' count --id '' @ group_id
                  @ '' --csv '' @ quoted aggr_csv @ '' --normalize '' @ normalize
            in and_then ([Popen aggr_cmd], Inr ()) (\<lambda>_.
               and_then (log_outputs log_dir ''aggr'' group_id) (\<lambda>_.
               ([], Inr (path_join aggr_dir group_id)))))))"

text \<open>The shell commands among the actions, in order.\<close>

fun commands :: "action list \<Rightarrow> string list" where
  "commands [] = []"
| "commands (Popen cmd # acts) = cmd # commands acts"
| "commands (a # acts) = commands acts"

text \<open>\<^verbatim>\<open>os.path.dirname(p)\<close> of \<^verbatim>\<open>posixpath\<close>.\<close>

definition dirname :: "string \<Rightarrow> string" where
  "dirname p =
     (let head = rev (dropWhile (\<lambda>c. c \<noteq> CHR ''/'') (rev p)) in
      if head \<noteq> [] \<and> \<not> list_all (\<lambda>c. c = CHR ''/'') head
      then rev (dropWhile (\<lambda>c. c = CHR ''/'') (rev head))
      else head)"

text \<open>
  \<^verbatim>\<open>Sample.make_config_csv\<close>: the directory of the file is made when missing, the file
  is opened for writing, and the manifest is built and written.
\<close>

definition make_config_csv :: "world \<Rightarrow> Sample \<Rightarrow> string \<Rightarrow> action list \<times> (error + Sample)" where
  "make_config_csv w sample csv_path =
     (case build_config_csv w sample of
        Inl e \<Rightarrow> ([MakeDir (dirname csv_path), WriteFile csv_path []], Inl e)
      | Inr (text, sample') \<Rightarrow> ([MakeDir (dirname csv_path), WriteFile csv_path text], Inr sample'))"

text \<open>
  After starting a command, \<^verbatim>\<open>mkfastq\<close> and \<^verbatim>\<open>cellranger_multi\<close> open the
  \<^verbatim>\<open>_uiport\<close> file of the run or sample and ask the IP echo service.
\<close>

definition read_ui :: "world \<Rightarrow> string \<Rightarrow> error + unit" where
  "read_ui w uifile =
     (case uiport_file w uifile of
        None \<Rightarrow> Inl (FileNotFoundError uifile)
      | Some uistring \<Rightarrow> (case external_ip w of None \<Rightarrow> Inl URLError | Some ip \<Rightarrow> Inr ()))"

definition format_option :: "string option \<Rightarrow> string" where
  "format_option p = (case p of None \<Rightarrow> ''None'' | Some s \<Rightarrow> s)"

text \<open>
  \<^verbatim>\<open>Run.mkfastq\<close>: the command, the user interface, the logs, and then the fixed
  \<^verbatim>\<open>fastq_path\<close> of the run.
\<close>

definition mkfastq :: "world \<Rightarrow> Run \<Rightarrow> string \<Rightarrow> pyval \<Rightarrow> pyval option \<Rightarrow> string option
    \<Rightarrow> action list \<times> (error + Run)" where
  "mkfastq w run fastq_dir cellranger uiport log_dir =
     (let mkfastq_cmd = ''cd '' @ quoted fastq_dir @ '' && '' @ py_format w cellranger @ '' mkfastq''
            @ '' --id='' @ r_name run
            @ '' --run='' @ quoted (format_option (r_path run))
            @ (case r_samplesheet run of
                 Some sheet \<Rightarrow> '' --samplesheet='' @ quoted sheet
               | None \<Rightarrow> '' --csv='' @ quoted (format_option (r_simple_csv run)))
            @ (case uiport of None \<Rightarrow> [] | Some port \<Rightarrow> '' --uiport='' @ py_format w port)
      in and_then ([Popen mkfastq_cmd], read_ui w (path_join fastq_dir (r_name run @ ''/_uiport''))) (\<lambda>_.
         and_then (log_outputs log_dir ''mkfastq'' (r_name run)) (\<lambda>_.
         ([], Inr (run\<lparr>r_fastq_path := Some (path_join fastq_dir (r_name run @ ''/outs/fastq_path''))\<rparr>)))))"

text \<open>\<^verbatim>\<open>cellranger_multi\<close>: the manifest, the command, the user interface, the logs.\<close>

definition cellranger_multi :: "world \<Rightarrow> Sample \<Rightarrow> string \<Rightarrow> pyval \<Rightarrow> pyval option \<Rightarrow> string option
    \<Rightarrow> action list \<times> (error + Sample)" where
  "cellranger_multi w sample output_dir cellranger uiport log_dir =
     (let name = py_format w (s_name sample);
          config_csv = path_join output_dir (name @ ''_config.csv'')
      in and_then (make_config_csv w sample config_csv) (\<lambda>sample.
           (let multi_cmd = ''cd '' @ quoted output_dir
                  @ '' && '' @ py_format w cellranger @ '' multi --id '' @ name @ '' --csv '' @ config_csv
                  @ (case uiport of None \<Rightarrow> [] | Some port \<Rightarrow> '' --uiport '' @ py_format w port)
            in and_then ([Popen multi_cmd], read_ui w (path_join output_dir (name @ ''/_uiport''))) (\<lambda>_.
               and_then (log_outputs log_dir ''cellranger_multi'' name) (\<lambda>_.
               ([], Inr sample))))))"


section \<open>The pipeline\<close>

text \<open>\<^verbatim>\<open>build_directory_structure\<close>: the project tree and the copy of the configuration.\<close>

record dirs =
  d_run :: string
  d_mkfastq :: string
  d_multi :: string
  d_log :: string

definition build_directory_structure :: "string \<Rightarrow> Config \<Rightarrow> action list \<times> (error + dirs)" where
  "build_directory_structure project_dir cfg =
     (let ds = \<lparr>d_run = path_join project_dir ''run_data'',
                d_mkfastq = path_join project_dir ''cellranger/mkfastq'',
                d_multi = path_join project_dir ''cellranger/multi'',
                d_log = path_join project_dir ''logs''\<rparr>
      in ([MakeDir project_dir,
           CopyFile (c_config_file cfg) (path_join project_dir ''config.yaml''),
           MakeDir (d_run ds), MakeDir (d_mkfastq ds), MakeDir (d_multi ds), MakeDir (d_log ds)],
          Inr ds))"

text \<open>
  The first loop of \<^verbatim>\<open>main\<close>: each run is acquired and demultiplexed, then bound to
  the libraries of the samples.
\<close>

fun run_loop :: "world \<Rightarrow> dirs \<Rightarrow> pyval \<Rightarrow> Run list \<Rightarrow> Sample list
    \<Rightarrow> action list \<times> (error + Sample list)" where
  "run_loop w ds cellranger [] samples = ([], Inr samples)"
| "run_loop w ds cellranger (run # rest) samples =
     and_then (get w (d_run ds) (Some (d_log ds)) run) (\<lambda>run.
     and_then (mkfastq w run (d_mkfastq ds) cellranger None (Some (d_log ds))) (\<lambda>run.
     and_then ([], case bind_samples w run samples of Inl e \<Rightarrow> Inl e | Inr (run', samples') \<Rightarrow> Inr samples')
       (\<lambda>samples. run_loop w ds cellranger rest samples)))"

text \<open>
  The second loop: for each sample the manifest is written, then
  \<^verbatim>\<open>cellranger_multi\<close> writes it again and runs the command.
\<close>

fun multi_loop :: "world \<Rightarrow> dirs \<Rightarrow> pyval \<Rightarrow> pyval \<Rightarrow> Sample list
    \<Rightarrow> action list \<times> (error + Sample list)" where
  "multi_loop w ds cellranger uiport [] = ([], Inr [])"
| "multi_loop w ds cellranger uiport (sample # rest) =
     and_then (make_config_csv w sample
                 (path_join (d_multi ds) (py_format w (s_name sample) @ ''_config.csv''))) (\<lambda>sample.
     and_then (cellranger_multi w sample (d_multi ds) cellranger
                 (if uiport = PNone then None else Some uiport) (Some (d_log ds))) (\<lambda>sample.
     and_then (multi_loop w ds cellranger uiport rest) (\<lambda>rest.
     ([], Inr (sample # rest)))))"

text \<open>
  The \<^verbatim>\<open>vdj\<close> loop tests \<^verbatim>\<open>'vdj' not in sample.ops\<close> for its first sample; a
  \<^verbatim>\<open>Sample\<close> has no attribute \<^verbatim>\<open>ops\<close> (\<^verbatim>\<open>__init__\<close> sets none and nothing
  assigns one).
\<close>

definition vdj_loop :: "Sample list \<Rightarrow> action list \<times> (error + unit)" where
  "vdj_loop samples = (case samples of [] \<Rightarrow> ([], Inr ()) | sample # rest \<Rightarrow> ([], Inl (AttributeError ''ops'')))"

text \<open>
  \<^verbatim>\<open>main\<close>, from the parsed arguments and the loaded configuration document up to the
  head of the \<^verbatim>\<open>count\<close> loop, which reads \<^verbatim>\<open>cfg.ops\<close>. The result \<open>Inr ops\<close> is the
  value of that read, with which the later statements would go on.
\<close>

definition main :: "world \<Rightarrow> string \<Rightarrow> string \<Rightarrow> pyval \<Rightarrow> action list \<times> (error + pyval)" where
  "main w project_dir config_file document =
     and_then ([], parse_config_file w config_file document) (\<lambda>cfg.
     and_then (build_directory_structure project_dir cfg) (\<lambda>ds.
     and_then (run_loop w ds (c_cellranger cfg) (c_runs cfg) (c_samples cfg)) (\<lambda>samples.
     and_then (multi_loop w ds (c_cellranger cfg) (c_uiport cfg) samples) (\<lambda>samples.
     and_then (vdj_loop samples) (\<lambda>_.
     ([], Config_ops cfg))))))"



section \<open>Identity of samples\<close>

text \<open>
  Two names in the program may refer to one object or to two. An object is an address
  with its state. \<^verbatim>\<open>Sample.__hash__\<close> is \<^verbatim>\<open>hash(self.name)\<close>, which raises for a
  list or a dictionary. The class defines \<^verbatim>\<open>__lt__\<close> and \<^verbatim>\<open>__hash__\<close> but no
  \<^verbatim>\<open>__eq__\<close>, so \<^verbatim>\<open>a == b\<close> is the comparison that every object inherits:
  \<^verbatim>\<open>a is b\<close>.
\<close>

type_synonym 'a object = "nat \<times> 'a"

definition Sample_hash :: "world \<Rightarrow> Sample object \<Rightarrow> error + int" where
  "Sample_hash w a =
     (case s_name (snd a) of
        PList xs \<Rightarrow> Inl TypeError
      | PDict kvs \<Rightarrow> Inl TypeError
      | name \<Rightarrow> Inr (py_hash w name))"

definition Sample_eq :: "Sample object \<Rightarrow> Sample object \<Rightarrow> bool" where
  "Sample_eq a b = (fst a = fst b)"


section \<open>Worked examples\<close>

text \<open>
  A world where every path is already absolute, and the objects that the examples below
  evaluate the pipeline on.
\<close>

definition example_world :: world where
  "example_world =
     \<lparr>abspath = (\<lambda>p. p), py_repr = (\<lambda>v. ''<value>''), py_hash = (\<lambda>v. 0),
      rta_root = (\<lambda>d. None),
      csv_rows = (\<lambda>f. [[(''Sample'', ''s1_gex''), (''Index'', ''SI-GA-A1'')]]),
      sheet_samples = (\<lambda>f. []),
      uiport_file = (\<lambda>f. Some ''serving UI at http://host:3600''),
      external_ip = Some ''10.0.0.1''\<rparr>"

definition remote_run :: Run where
  "remote_run =
     \<lparr>r_name = ''run1'',
      r_config = PDict [(''url'', PStr ''http://host/data/run1''), (''is_compressed'', PBool False),
                        (''simple_csv'', PStr ''/data/run1.csv'')],
      r_url = PStr ''http://host/data/run1'', r_path = None, r_is_compressed = PBool False,
      r_samplesheet = None, r_simple_csv = Some ''/data/run1.csv'',
      r_copy_to_project = PBool False, r_fastq_path = None, r_libraries = None\<rparr>"

definition local_run :: Run where
  "local_run =
     \<lparr>r_name = ''run2'',
      r_config = PDict [(''path'', PStr ''/data/run2''), (''is_compressed'', PBool False),
                        (''simple_csv'', PStr ''/data/run2.csv'')],
      r_url = PNone, r_path = Some ''/data/run2'', r_is_compressed = PBool False,
      r_samplesheet = None, r_simple_csv = Some ''/data/run2.csv'',
      r_copy_to_project = PBool False, r_fastq_path = None, r_libraries = None\<rparr>"

definition example_libraries :: "Library list" where
  "example_libraries =
     [\<lparr>l_name = PStr ''s1_gex'', l_type = ''Gene Expression'',
       l_fastq_paths = Some [''/fq/run1'', ''/fq/run2'']\<rparr>,
      \<lparr>l_name = PStr ''s1_bcr'', l_type = ''VDJ-B'', l_fastq_paths = None\<rparr>]"

definition example_sample :: Sample where
  "example_sample =
     (Sample_init (PStr ''s1'')
        (PDict [(''Gene Expression'', PStr ''s1_gex''), (''VDJ-B'', PStr ''s1_bcr'')])
        (PStr ''/refs/GRCh38'') PNone (PStr ''/refs/features.csv''))
     \<lparr>s_libraries := Some example_libraries\<rparr>"

definition example_manifest :: string where
  "example_manifest =
     ''[gene-expression]\<newline>reference,/refs/GRCh38\<newline>\<newline>''
     @ ''[feature]\<newline>reference,/refs/features.csv\<newline>\<newline>''
     @ ''[libraries]\<newline>fastq_id,fastqs,feature_types\<newline>''
     @ ''s1_gex,/fq/run1,Gene Expression\<newline>''
     @ ''s1_gex,/fq/run2,Gene Expression\<newline>''"

definition example_gex_reference :: pyval where
  "example_gex_reference = PDict [(''default'', PStr ''/refs/GRCh38''), (''s2'', PStr ''/refs/mm10'')]"

definition example_config :: pyval where
  "example_config =
     PDict [(''runs'', PDict [(''run2'', PDict [(''path'', PStr ''/data/run2''),
                                                (''is_compressed'', PBool False),
                                                (''simple_csv'', PStr ''/data/run2.csv'')])]),
            (''samples'', PDict [(''s1'', PDict [(''Gene Expression'', PStr ''s1_gex'')]),
                                 (''s2'', PDict [(''Gene Expression'', PStr ''s2_gex'')])]),
            (''gex_reference'', example_gex_reference)]"

definition demultiplexed_run :: Run where
  "demultiplexed_run =
     local_run\<lparr>r_fastq_path := Some ''/project/cellranger/mkfastq/run2/outs/fastq_path''\<rparr>"

definition fresh_sample :: Sample where
  "fresh_sample =
     Sample_init (PStr ''s1'') (PDict [(''Gene Expression'', PStr ''s1_gex'')])
       (PDict [(''default'', PStr ''/refs/GRCh38'')]) (PDict []) (PDict [])"

definition counted_sample :: Sample where
  "counted_sample =
     fresh_sample\<lparr>s_count_path := Some ''/project/count/s1'', s_id := Some (PStr ''s1'')\<rparr>"

text \<open>The paths stored in the libraries of a sample, library by library.\<close>

definition stored_paths :: "Sample \<Rightarrow> string list list" where
  "stored_paths s =
     (case libraries s of Inl e \<Rightarrow> [] | Inr (libs, s') \<Rightarrow> map accumulated_paths libs)"

text \<open>
  One data row of the aggregation manifest, for a sample that has both attributes: its
  \<^verbatim>\<open>id\<close>, a comma, and its \<^verbatim>\<open>count_path\<close> joined with the fixed suffix.
\<close>

definition aggr_row :: "world \<Rightarrow> Sample \<Rightarrow> string" where
  "aggr_row w s =
     (case (s_id s, s_count_path s) of
        (Some sample_id, Some count_path) \<Rightarrow>
          py_format w sample_id @ '','' @ path_join count_path ''outs/molecule_info.h5''
      | _ \<Rightarrow> [])"

text \<open>The archive names that \<^verbatim>\<open>_decompress\<close> has a branch for.\<close>

definition supported_archive :: "string \<Rightarrow> bool" where
  "supported_archive s =
     (endswith s ''.tar.gz'' \<or> endswith s ''.tgz'' \<or> endswith s ''.tar'' \<or> endswith s ''.zip'')"

text \<open>One data row of the manifest.\<close>

definition manifest_row :: "world \<Rightarrow> Library \<Rightarrow> string \<Rightarrow> string" where
  "manifest_row w lib path =
     py_format w (l_name lib) @ '','' @ path @ '','' @ l_type lib @ ''\<newline>''"


section \<open>The manifest of a sample\<close>

lemma fastq_loop_append:
  "fastq_loop w lib ps config = config @ concat (map (manifest_row w lib) ps)"
  by (induction ps arbitrary: config) (simp_all add: manifest_row_def)

lemma fastq_paths_fst: "fst (fastq_paths lib) = accumulated_paths lib"
  by (simp add: fastq_paths_def accumulated_paths_def split: option.splits)

lemma fastq_paths_snd_fields:
  "l_name (snd (fastq_paths lib)) = l_name lib"
  "l_type (snd (fastq_paths lib)) = l_type lib"
  "l_fastq_paths (snd (fastq_paths lib)) = Some (accumulated_paths lib)"
  by (simp_all add: fastq_paths_def accumulated_paths_def split: option.splits)

lemma manifest_data_rows_Cons:
  "concat (manifest_data_rows w (lib # libs)) =
     concat (map (manifest_row w lib) (accumulated_paths lib)) @ concat (manifest_data_rows w libs)"
  by (simp add: manifest_data_rows_def library_path_pairs_def manifest_row_def [abs_def] comp_def)

text \<open>
  The two loops append exactly the data rows, and leave every library with its list of
  paths stored.
\<close>

lemma library_loop_eq:
  "library_loop w libs config =
     (config @ concat (manifest_data_rows w libs), map (\<lambda>l. snd (fastq_paths l)) libs)"
proof (induction libs arbitrary: config)
  case Nil
  show ?case by (simp add: manifest_data_rows_def library_path_pairs_def)
next
  case (Cons lib libs)
  obtain ps lib' where fp: "fastq_paths lib = (ps, lib')" by (cases "fastq_paths lib")
  have ps: "ps = accumulated_paths lib" using fastq_paths_fst [of lib] fp by simp
  have row: "manifest_row w lib' = manifest_row w lib"
    using fastq_paths_snd_fields(1,2) [of lib] fp by (simp add: manifest_row_def fun_eq_iff)
  show ?case
    by (simp add: fp Cons.IH fastq_loop_append row ps manifest_data_rows_Cons)
qed

lemma build_config_csv_eq:
  "libraries s = Inr (libs, s1) \<Longrightarrow>
   build_config_csv w s =
     Inr (manifest_spec w s libs, s1\<lparr>s_libraries := Some (map (\<lambda>l. snd (fastq_paths l)) libs)\<rparr>)"
  by (simp add: build_config_csv_def library_loop_eq manifest_spec_def manifest_section_def Let_def)

lemma libraries_cached: "s_libraries s = Some libs \<Longrightarrow> libraries s = Inr (libs, s)"
  by (simp add: libraries_def)

lemma fastq_paths_idem:
  "fastq_paths (snd (fastq_paths lib)) = (accumulated_paths lib, snd (fastq_paths lib))"
  by (simp add: fastq_paths_def accumulated_paths_def split: option.splits)

lemma accumulated_paths_read: "accumulated_paths (snd (fastq_paths lib)) = accumulated_paths lib"
  by (simp add: fastq_paths_def accumulated_paths_def split: option.splits)

lemma manifest_data_rows_read:
  "manifest_data_rows w (map (\<lambda>l. snd (fastq_paths l)) libs) = manifest_data_rows w libs"
  by (induction libs)
     (simp_all add: manifest_data_rows_def library_path_pairs_def accumulated_paths_read
        fastq_paths_snd_fields comp_def)

lemma example_libraries_read: "libraries example_sample = Inr (example_libraries, example_sample)"
  by (rule libraries_cached) (simp add: example_sample_def)

lemma example_manifest_spec:
  "manifest_spec example_world example_sample example_libraries = example_manifest"
  by (simp add: manifest_spec_def manifest_section_def manifest_data_rows_def library_path_pairs_def
      accumulated_paths_def example_sample_def example_libraries_def Sample_init_def
      example_manifest_def)

text \<open>
  Claim C4. For every sample whose libraries can be read, the manifest that
  \<^verbatim>\<open>_build_config_csv\<close> returns is, in this order: the \<^verbatim>\<open>[gene-expression]\<close> section
  with the reference exactly when \<^verbatim>\<open>gex_reference\<close> is set, the \<^verbatim>\<open>[vdj]\<close> section
  exactly when \<^verbatim>\<open>vdj_reference\<close> is set, the \<^verbatim>\<open>[feature]\<close> section exactly when
  \<^verbatim>\<open>feature_reference\<close> is set, then \<^verbatim>\<open>[libraries]\<close>, the header row
  \<^verbatim>\<open>fastq_id,fastqs,feature_types\<close>, and one data row \<^verbatim>\<open>name,path,type\<close> for each
  pair of a library and one of its accumulated paths, in the order of the libraries and
  of their paths.
\<close>

theorem build_config_csv_manifest:
  assumes "libraries s = Inr (libs, s1)"
  shows "(\<exists>s'. build_config_csv w s = Inr (manifest_spec w s libs, s'))
         \<and> length (manifest_data_rows w libs) = length (library_path_pairs libs)"
  using build_config_csv_eq [OF assms, of w] by (simp add: manifest_data_rows_def)

theorem build_config_csv_manifest_witness:
  "libraries example_sample = Inr (example_libraries, example_sample)
   \<and> (\<exists>s'. build_config_csv example_world example_sample = Inr (example_manifest, s'))
   \<and> length (manifest_data_rows example_world example_libraries) = 2"
  using build_config_csv_manifest [OF example_libraries_read, of example_world]
    example_libraries_read
  unfolding example_manifest_spec
  by (simp add: library_path_pairs_def accumulated_paths_def example_libraries_def)

text \<open>
  Claim C10. Building the manifest of a sample a second time, from the state in which
  the first build left the sample, returns the same text, byte for byte, and changes the
  sample no further: the lists that the first build stored on reading the properties
  \<^verbatim>\<open>libraries\<close> and \<^verbatim>\<open>fastq_paths\<close> do not show in the output.
\<close>

theorem build_config_csv_deterministic:
  assumes "build_config_csv w s = Inr (text, s')"
  shows "build_config_csv w s' = Inr (text, s')"
proof -
  from assms obtain libs s1 where l: "libraries s = Inr (libs, s1)"
    by (auto simp: build_config_csv_def Let_def split: sum.splits)
  let ?libs' = "map (\<lambda>l. snd (fastq_paths l)) libs"
  from build_config_csv_eq [OF l, of w] assms
  have t: "text = manifest_spec w s libs" and s': "s' = s1\<lparr>s_libraries := Some ?libs'\<rparr>"
    by simp_all
  have s1: "s1 = s \<or> s1 = s\<lparr>s_libraries := Some libs\<rparr>"
    using l by (auto simp: libraries_def Let_def split: option.splits sum.splits)
  have l': "libraries s' = Inr (?libs', s')"
    by (rule libraries_cached) (simp add: s')
  have refs: "s_gex_reference s' = s_gex_reference s" "s_vdj_reference s' = s_vdj_reference s"
     "s_feature_reference s' = s_feature_reference s"
    using s1 by (auto simp: s')
  have same: "map (\<lambda>l. snd (fastq_paths l)) ?libs' = ?libs'"
    by (simp add: fastq_paths_idem comp_def)
  have "manifest_spec w s' ?libs' = manifest_spec w s libs"
    by (simp add: manifest_spec_def refs manifest_data_rows_read)
  with build_config_csv_eq [OF l', of w] same show ?thesis
    by (simp add: t s')
qed

lemma example_build:
  "build_config_csv example_world example_sample =
     Inr (example_manifest,
          example_sample\<lparr>s_libraries := Some (map (\<lambda>l. snd (fastq_paths l)) example_libraries)\<rparr>)"
  using build_config_csv_eq [OF example_libraries_read, of example_world]
  by (simp add: example_manifest_spec)

theorem build_config_csv_deterministic_witness:
  "build_config_csv example_world example_sample =
     Inr (example_manifest,
          example_sample\<lparr>s_libraries := Some (map (\<lambda>l. snd (fastq_paths l)) example_libraries)\<rparr>)
   \<and> build_config_csv example_world
       (example_sample\<lparr>s_libraries := Some (map (\<lambda>l. snd (fastq_paths l)) example_libraries)\<rparr>) =
     Inr (example_manifest,
          example_sample\<lparr>s_libraries := Some (map (\<lambda>l. snd (fastq_paths l)) example_libraries)\<rparr>)"
  by (rule conjI [OF example_build build_config_csv_deterministic [OF example_build]])



section \<open>Acquisition of a run\<close>

lemma endswith_last: "endswith s suf \<Longrightarrow> suf \<noteq> [] \<Longrightarrow> last s = last suf"
  unfolding endswith_def
  by (metis append_take_drop_id last_appendR)

lemma tar_not_gz: "endswith s ''.tar'' \<Longrightarrow> \<not> endswith s ''.tar.gz'' \<and> \<not> endswith s ''.tgz''"
  using endswith_last [of s "''.tar''"] endswith_last [of s "''.tar.gz''"]
    endswith_last [of s "''.tgz''"]
  by auto

lemma zip_not_tar:
  "endswith s ''.zip'' \<Longrightarrow>
   \<not> endswith s ''.tar.gz'' \<and> \<not> endswith s ''.tgz'' \<and> \<not> endswith s ''.tar''"
  using endswith_last [of s "''.tar''"] endswith_last [of s "''.tar.gz''"]
    endswith_last [of s "''.tgz''"] endswith_last [of s "''.zip''"]
  by auto

lemma commands_append: "commands (xs @ ys) = commands xs @ commands ys"
  by (induction xs rule: commands.induct) simp_all

lemma commands_log_outputs: "commands (fst (log_outputs log_dir stage prefix)) = []"
  by (simp add: log_outputs_def write_log_def Let_def split: option.splits)

lemma decompress_commands:
  "extraction_command (abspath w src) (abspath w destination) = Some cmd \<Longrightarrow>
   commands (fst (decompress w name (Some src) destination log_dir)) = [cmd]"
  using commands_log_outputs [of log_dir "''decompress''" name]
  by (cases "log_outputs log_dir ''decompress'' name")
     (auto simp: decompress_def Let_def commands_append split: sum.splits)

lemma decompress_unsupported:
  "extraction_command (abspath w src) (abspath w destination) = None \<Longrightarrow>
   decompress w name (Some src) destination log_dir =
     ([MakeDir (abspath w destination),
       Print (''ERROR: input file '' @ abspath w src @ '' has an unsupported compression type. ''
              @ ''Only files with .tar, .tar.gz, .tgz or .zip extensions are supported.'')],
      Inl SystemExit)"
  by (simp add: decompress_def Let_def)

lemma example_abspath: "abspath example_world p = p"
  by (simp add: example_world_def)

lemma example_archives:
  "endswith ''/data/run1.tar.gz'' ''.tar.gz''"
  "endswith ''/data/run1.tgz'' ''.tgz''"
  "endswith ''/data/run1.tar'' ''.tar''"
  "endswith ''/data/run1.zip'' ''.zip''"
  "\<not> supported_archive ''/data/run1.rar''"
  by (simp_all add: supported_archive_def endswith_def)

text \<open>
  Claim C5. \<^verbatim>\<open>_decompress\<close> selects the command from the end of the absolute source
  path: \<^verbatim>\<open>.tar.gz\<close> and \<^verbatim>\<open>.tgz\<close> give \<^verbatim>\<open>tar xzvf\<close>, \<^verbatim>\<open>.tar\<close> gives
  \<^verbatim>\<open>tar xvf\<close>, \<^verbatim>\<open>.zip\<close> gives \<^verbatim>\<open>unzip\<close>, and that command is the only one it
  runs. For any other name it runs no command at all and ends the process with
  \<^verbatim>\<open>sys.exit()\<close>, after printing that the compression type is unsupported.
\<close>

theorem decompress_dispatch:
  "(endswith (abspath w src) ''.tar.gz'' \<or> endswith (abspath w src) ''.tgz'' \<longrightarrow>
      commands (fst (decompress w name (Some src) destination log_dir)) =
        [''tar xzvf '' @ quoted (abspath w src) @ '' -C '' @ quoted (abspath w destination)])
   \<and> (endswith (abspath w src) ''.tar'' \<longrightarrow>
      commands (fst (decompress w name (Some src) destination log_dir)) =
        [''tar xvf '' @ quoted (abspath w src) @ '' -C '' @ quoted (abspath w destination)])
   \<and> (endswith (abspath w src) ''.zip'' \<longrightarrow>
      commands (fst (decompress w name (Some src) destination log_dir)) =
        [''unzip '' @ abspath w src @ '' -d '' @ abspath w destination])
   \<and> (\<not> supported_archive (abspath w src) \<longrightarrow>
      snd (decompress w name (Some src) destination log_dir) = Inl SystemExit
      \<and> commands (fst (decompress w name (Some src) destination log_dir)) = [])"
proof (intro conjI impI)
  assume "endswith (abspath w src) ''.tar.gz'' \<or> endswith (abspath w src) ''.tgz''"
  then show "commands (fst (decompress w name (Some src) destination log_dir)) =
        [''tar xzvf '' @ quoted (abspath w src) @ '' -C '' @ quoted (abspath w destination)]"
    by (intro decompress_commands) (simp add: extraction_command_def)
next
  assume a: "endswith (abspath w src) ''.tar''"
  show "commands (fst (decompress w name (Some src) destination log_dir)) =
        [''tar xvf '' @ quoted (abspath w src) @ '' -C '' @ quoted (abspath w destination)]"
    using a tar_not_gz [OF a] by (intro decompress_commands) (simp add: extraction_command_def)
next
  assume a: "endswith (abspath w src) ''.zip''"
  show "commands (fst (decompress w name (Some src) destination log_dir)) =
        [''unzip '' @ abspath w src @ '' -d '' @ abspath w destination]"
    using a zip_not_tar [OF a] by (intro decompress_commands) (simp add: extraction_command_def)
next
  assume a: "\<not> supported_archive (abspath w src)"
  then have n: "extraction_command (abspath w src) (abspath w destination) = None"
    by (simp add: supported_archive_def extraction_command_def)
  show "snd (decompress w name (Some src) destination log_dir) = Inl SystemExit"
    by (simp add: decompress_unsupported [OF n])
  show "commands (fst (decompress w name (Some src) destination log_dir)) = []"
    by (simp add: decompress_unsupported [OF n])
qed

theorem decompress_dispatch_witness:
  "commands (fst (decompress example_world ''run1'' (Some ''/data/run1.tar.gz'') ''/raw/run1'' None)) =
     [''tar xzvf '' @ quoted ''/data/run1.tar.gz'' @ '' -C '' @ quoted ''/raw/run1'']
   \<and> commands (fst (decompress example_world ''run1'' (Some ''/data/run1.tgz'') ''/raw/run1'' None)) =
     [''tar xzvf '' @ quoted ''/data/run1.tgz'' @ '' -C '' @ quoted ''/raw/run1'']
   \<and> commands (fst (decompress example_world ''run1'' (Some ''/data/run1.tar'') ''/raw/run1'' None)) =
     [''tar xvf '' @ quoted ''/data/run1.tar'' @ '' -C '' @ quoted ''/raw/run1'']
   \<and> commands (fst (decompress example_world ''run1'' (Some ''/data/run1.zip'') ''/raw/run1'' None)) =
     [''unzip /data/run1.zip -d /raw/run1'']
   \<and> snd (decompress example_world ''run1'' (Some ''/data/run1.rar'') ''/raw/run1'' None) = Inl SystemExit
   \<and> commands (fst (decompress example_world ''run1'' (Some ''/data/run1.rar'') ''/raw/run1'' None)) = []"
  using decompress_dispatch [of example_world "''/data/run1.tar.gz''" "''run1''" "''/raw/run1''" None]
    decompress_dispatch [of example_world "''/data/run1.tgz''" "''run1''" "''/raw/run1''" None]
    decompress_dispatch [of example_world "''/data/run1.tar''" "''run1''" "''/raw/run1''" None]
    decompress_dispatch [of example_world "''/data/run1.zip''" "''run1''" "''/raw/run1''" None]
    decompress_dispatch [of example_world "''/data/run1.rar''" "''run1''" "''/raw/run1''" None]
    example_archives
  by (simp add: example_abspath)

lemma fst_and_then_Nil: "fst (and_then m f) = [] \<Longrightarrow> fst m = []"
  by (auto simp: and_then_def split: prod.splits sum.splits)

lemma download_acts: "fst (download w name url destination log_dir) \<noteq> []"
  by (auto simp: download_def Let_def split: prod.splits sum.splits pyval.splits)

lemma decompress_result: "decompress w name source destination log_dir \<noteq> ([], Inr p)"
  by (auto simp: decompress_def Let_def split: option.splits prod.splits sum.splits)

text \<open>
  Claim C3, as stated, at a run that is downloaded: the first \<^verbatim>\<open>get\<close> runs
  \<^verbatim>\<open>wget\<close> and stores the downloaded path; \<^verbatim>\<open>url\<close> stays set, so a second
  \<^verbatim>\<open>get\<close> on the acquired run runs the same \<^verbatim>\<open>wget\<close> again.
\<close>

theorem get_twice_downloads_twice:
  "get example_world ''/raw'' None remote_run =
     ([MakeDir ''/raw/run1'', Popen (''wget http://host/data/run1 '' @ quoted ''/raw/run1'')],
      Inr (remote_run\<lparr>r_path := Some ''/raw/run1/run1''\<rparr>))
   \<and> get example_world ''/raw'' None (remote_run\<lparr>r_path := Some ''/raw/run1/run1''\<rparr>) =
     ([MakeDir ''/raw/run1'', Popen (''wget http://host/data/run1 '' @ quoted ''/raw/run1'')],
      Inr (remote_run\<lparr>r_path := Some ''/raw/run1/run1''\<rparr>))"
  by (simp add: get_def get_copy_def get_download_def get_decompress_def and_then_def download_def
      log_outputs_def remote_run_def example_abspath path_join_def basename_def Let_def)

text \<open>
  Claim C3, amended. \<^verbatim>\<open>Run.get\<close> asks nothing of the system and leaves the run as it
  is exactly when the run has no \<^verbatim>\<open>url\<close>, is not flagged \<^verbatim>\<open>is_compressed\<close>, and
  either has no \<^verbatim>\<open>path\<close> or is not flagged \<^verbatim>\<open>copy_to_project\<close>. On such a run
  every further invocation is again without effect.
\<close>

theorem get_no_acquisition:
  "get w raw_dir log_dir run = ([], Inr run) \<longleftrightarrow>
     r_url run = PNone \<and> \<not> truthy (r_is_compressed run)
     \<and> (r_path run = None \<or> \<not> truthy (r_copy_to_project run))"
proof
  assume idle: "r_url run = PNone \<and> \<not> truthy (r_is_compressed run)
     \<and> (r_path run = None \<or> \<not> truthy (r_copy_to_project run))"
  then show "get w raw_dir log_dir run = ([], Inr run)"
    by (auto simp: get_def get_copy_def get_download_def get_decompress_def and_then_def Let_def
        split: option.splits)
next
  assume g: "get w raw_dir log_dir run = ([], Inr run)"
  let ?d = "path_join (abspath w raw_dir) (r_name run)"
  have c: "get_copy ?d run = ([], Inr run)"
    using g by (auto simp: get_def get_copy_def copy_run_def and_then_def Let_def
        split: option.splits if_splits prod.splits sum.splits)
  then have copy: "r_path run = None
      \<or> \<not> (truthy (r_copy_to_project run) \<and> \<not> truthy (r_is_compressed run))"
    by (auto simp: get_copy_def copy_run_def split: option.splits if_splits)
  from g c have rest:
    "and_then (get_download w ?d log_dir run) (\<lambda>run. get_decompress w ?d log_dir run) = ([], Inr run)"
    by (simp add: get_def and_then_def Let_def split: prod.splits)
  have url: "r_url run = PNone"
  proof (rule ccontr)
    assume "r_url run \<noteq> PNone"
    then have "fst (get_download w ?d log_dir run) \<noteq> []"
      using download_acts [of w "r_name run" "r_url run" ?d log_dir]
      by (auto simp: get_download_def split: prod.splits sum.splits)
    moreover have "fst (and_then (get_download w ?d log_dir run)
        (\<lambda>run. get_decompress w ?d log_dir run)) = []"
      using rest by simp
    ultimately show False using fst_and_then_Nil by blast
  qed
  then have "get_decompress w ?d log_dir run = ([], Inr run)"
    using rest by (simp add: get_download_def and_then_def split: prod.splits)
  then have comp: "\<not> truthy (r_is_compressed run)"
    using decompress_result [of w "r_name run" "r_path run" ?d log_dir]
    by (auto simp: get_decompress_def split: if_splits prod.splits sum.splits)
  from url comp copy show "r_url run = PNone \<and> \<not> truthy (r_is_compressed run)
     \<and> (r_path run = None \<or> \<not> truthy (r_copy_to_project run))" by auto
qed

theorem get_no_acquisition_witness:
  "get example_world ''/raw'' (Some ''/logs'') local_run = ([], Inr local_run)
   \<and> r_url local_run = PNone \<and> \<not> truthy (r_is_compressed local_run)
   \<and> \<not> truthy (r_copy_to_project local_run)"
  using get_no_acquisition [of example_world "''/raw''" "Some ''/logs''" local_run]
  by (simp add: local_run_def)



section \<open>Loading the configuration\<close>

lemma Sample_call_config:
  "Sample_call [name, lib_dict]
     [(''gex_reference'', g), (''vdj_reference'', v), (''feature_reference'', f)] =
   Inr (Sample_init name lib_dict g v f)"
  by (simp add: Sample_call_def bind_args_def Sample_params_def arg_def)

lemma Sample_call_index: "Sample_call [name] [(''index'', index)] = Inl TypeError"
  by (simp add: Sample_call_def bind_args_def Sample_params_def)

lemma Sample_call_name_index:
  "Sample_call [sample_id] [(''name'', name), (''index'', index)] = Inl TypeError"
  by (simp add: Sample_call_def bind_args_def Sample_params_def)

lemma collect_total: "(\<And>x. f x = Inr (g x)) \<Longrightarrow> collect f xs = Inr (map g xs)"
  by (induction xs) simp_all

lemma collect_samples:
  "collect (\<lambda>(name, lib_dict). Sample_call [PStr name, lib_dict]
       [(''gex_reference'', g), (''vdj_reference'', v), (''feature_reference'', f)]) items =
   Inr (map (\<lambda>(name, lib_dict). Sample_init (PStr name) lib_dict g v f) items)"
  by (rule collect_total) (simp add: Sample_call_config split: prod.splits)

lemma parse_config_file_samples:
  assumes "parse_config_file w config_file doc = Inr cfg"
  shows "\<exists>items. subscript doc ''samples'' = Inr (PDict items) \<and>
           c_samples cfg = map (\<lambda>(name, lib_dict). Sample_init (PStr name) lib_dict
              (c_gex_reference cfg) (c_vdj_reference cfg) (c_feature_reference cfg)) items"
  using assms
  apply (simp add: parse_config_file_def collect_samples split: sum.splits)
  apply (auto elim!: py_items.elims)
  done

lemma example_parse:
  "parse_config_file example_world ''config.yaml'' example_config =
   Inr \<lparr>c_config_file = ''config.yaml'', c_gex_reference = example_gex_reference,
        c_vdj_reference = PDict [], c_feature_reference = PDict [],
        c_uiport = PInt 72647, c_cellranger = PStr ''cellranger'',
        c_runs = [local_run],
        c_samples = [Sample_init (PStr ''s1'') (PDict [(''Gene Expression'', PStr ''s1_gex'')])
                       example_gex_reference (PDict []) (PDict []),
                     Sample_init (PStr ''s2'') (PDict [(''Gene Expression'', PStr ''s2_gex'')])
                       example_gex_reference (PDict []) (PDict [])],
        c_ops = None\<rparr>"
  by (simp add: parse_config_file_def example_config_def Sample_call_config Run_init_def
      abspath_if_present_def dict_get_def local_run_def example_world_def)

text \<open>
  Claim C2, at a configuration whose gene-expression map has a \<^verbatim>\<open>default\<close> and an
  entry for \<^verbatim>\<open>s2\<close>: the resolution that the claim describes gives \<^verbatim>\<open>s1\<close> the default
  and \<^verbatim>\<open>s2\<close> its own entry, but both samples that \<^verbatim>\<open>_parse_config_file\<close> builds hold
  the whole map as their \<^verbatim>\<open>gex_reference\<close>.
\<close>

theorem samples_hold_whole_reference_map:
  "(case parse_config_file example_world ''config.yaml'' example_config of
      Inl e \<Rightarrow> []
    | Inr cfg \<Rightarrow> map (\<lambda>s. (s_name s, s_gex_reference s)) (c_samples cfg)) =
     [(PStr ''s1'', PDict [(''default'', PStr ''/refs/GRCh38''), (''s2'', PStr ''/refs/mm10'')]),
      (PStr ''s2'', PDict [(''default'', PStr ''/refs/GRCh38''), (''s2'', PStr ''/refs/mm10'')])]
   \<and> resolved_reference [(''default'', PStr ''/refs/GRCh38''), (''s2'', PStr ''/refs/mm10'')] ''s1'' =
       Some (PStr ''/refs/GRCh38'')
   \<and> resolved_reference [(''default'', PStr ''/refs/GRCh38''), (''s2'', PStr ''/refs/mm10'')] ''s2'' =
       Some (PStr ''/refs/mm10'')"
  by (simp add: example_parse Sample_init_def example_gex_reference_def resolved_reference_def)

text \<open>
  Every sample of a loaded configuration holds the three reference maps of the
  configuration themselves, whatever its name.
\<close>

theorem samples_keep_reference_maps:
  assumes "parse_config_file w config_file doc = Inr cfg"
  shows "list_all (\<lambda>s. s_gex_reference s = c_gex_reference cfg
                      \<and> s_vdj_reference s = c_vdj_reference cfg
                      \<and> s_feature_reference s = c_feature_reference cfg) (c_samples cfg)"
proof -
  from parse_config_file_samples [OF assms] obtain items where
    "c_samples cfg = map (\<lambda>(name, lib_dict). Sample_init (PStr name) lib_dict
        (c_gex_reference cfg) (c_vdj_reference cfg) (c_feature_reference cfg)) items"
    by blast
  then show ?thesis
    by (simp add: list_all_iff Sample_init_def split: prod.splits)
qed

theorem samples_keep_reference_maps_witness:
  "list_all (\<lambda>s. s_gex_reference s = example_gex_reference
                \<and> s_vdj_reference s = PDict [] \<and> s_feature_reference s = PDict [])
     [Sample_init (PStr ''s1'') (PDict [(''Gene Expression'', PStr ''s1_gex'')])
        example_gex_reference (PDict []) (PDict []),
      Sample_init (PStr ''s2'') (PDict [(''Gene Expression'', PStr ''s2_gex'')])
        example_gex_reference (PDict []) (PDict [])]"
  using samples_keep_reference_maps [OF example_parse] by simp

lemma main_parse_error:
  "parse_config_file w config_file doc = Inl e \<Longrightarrow>
   main w project_dir config_file doc = ([], Inl e)"
  by (simp add: main_def and_then_def)

lemma parse_needs_sections:
  assumes "parse_config_file w config_file doc = Inr cfg"
  shows "\<exists>kvs rs ss. doc = PDict kvs \<and> map_of kvs ''runs'' = Some rs
           \<and> map_of kvs ''samples'' = Some ss"
proof (cases doc)
  case (PDict kvs)
  with assms show ?thesis
    by (auto simp: parse_config_file_def split: sum.splits option.splits)
qed (use assms in \<open>simp_all add: parse_config_file_def\<close>)

lemma parse_without_runs:
  "map_of kvs ''runs'' = None \<Longrightarrow>
   parse_config_file w config_file (PDict kvs) = Inl (KeyError ''runs'')"
  by (simp add: parse_config_file_def)

lemma parse_without_samples:
  "map_of kvs ''runs'' = Some (PDict run_items) \<Longrightarrow>
   collect (\<lambda>(name, cfg). Run_init w name cfg) run_items = Inr runs \<Longrightarrow>
   map_of kvs ''samples'' = None \<Longrightarrow>
   parse_config_file w config_file (PDict kvs) = Inl (KeyError ''samples'')"
  by (simp add: parse_config_file_def)

lemma example_runs:
  "collect (\<lambda>(name, cfg). Run_init example_world name cfg)
     [(''run2'', PDict [(''path'', PStr ''/data/run2''), (''is_compressed'', PBool False),
                        (''simple_csv'', PStr ''/data/run2.csv'')])] = Inr [local_run]"
  by (simp add: Run_init_def abspath_if_present_def dict_get_def local_run_def example_world_def)

text \<open>
  Claim C8, as stated, at a configuration whose \<^verbatim>\<open>runs\<close> section is present but
  empty (\<^verbatim>\<open>None\<close>): the loader fails with \<open>AttributeError\<close> for the method
  \<^verbatim>\<open>items\<close>, an error that names no field of the configuration.
\<close>

theorem config_loader_null_runs:
  "parse_config_file example_world ''config.yaml''
     (PDict [(''runs'', PNone), (''samples'', PDict [])]) = Inl (AttributeError ''items'')"
  by (simp add: parse_config_file_def)

text \<open>
  Claim C8, amended. The loader produces a \<^verbatim>\<open>Config\<close> only from a mapping that has
  both a \<^verbatim>\<open>runs\<close> and a \<^verbatim>\<open>samples\<close> section; whenever it raises, \<^verbatim>\<open>main\<close> ends
  with that exception before any action on the system; a mapping without \<^verbatim>\<open>runs\<close>
  raises \<open>KeyError\<close> naming \<^verbatim>\<open>runs\<close>, and a mapping whose runs are all constructed
  but that has no \<^verbatim>\<open>samples\<close> raises \<open>KeyError\<close> naming \<^verbatim>\<open>samples\<close>.
\<close>

theorem config_loader_rejects:
  "(parse_config_file w config_file doc = Inr cfg \<longrightarrow>
      (\<exists>kvs rs ss. doc = PDict kvs \<and> map_of kvs ''runs'' = Some rs
         \<and> map_of kvs ''samples'' = Some ss))
   \<and> (parse_config_file w config_file doc = Inl e \<longrightarrow>
      main w project_dir config_file doc = ([], Inl e))
   \<and> (map_of kvs ''runs'' = None \<longrightarrow>
      main w project_dir config_file (PDict kvs) = ([], Inl (KeyError ''runs'')))
   \<and> (map_of kvs ''runs'' = Some (PDict run_items)
      \<and> collect (\<lambda>(name, cfg). Run_init w name cfg) run_items = Inr runs
      \<and> map_of kvs ''samples'' = None \<longrightarrow>
      main w project_dir config_file (PDict kvs) = ([], Inl (KeyError ''samples'')))"
proof (intro conjI impI)
  assume "parse_config_file w config_file doc = Inr cfg"
  then show "\<exists>kvs rs ss. doc = PDict kvs \<and> map_of kvs ''runs'' = Some rs
      \<and> map_of kvs ''samples'' = Some ss"
    by (rule parse_needs_sections)
next
  assume "parse_config_file w config_file doc = Inl e"
  then show "main w project_dir config_file doc = ([], Inl e)"
    by (rule main_parse_error)
next
  assume "map_of kvs ''runs'' = None"
  then show "main w project_dir config_file (PDict kvs) = ([], Inl (KeyError ''runs''))"
    by (intro main_parse_error parse_without_runs)
next
  assume "map_of kvs ''runs'' = Some (PDict run_items)
      \<and> collect (\<lambda>(name, cfg). Run_init w name cfg) run_items = Inr runs
      \<and> map_of kvs ''samples'' = None"
  then show "main w project_dir config_file (PDict kvs) = ([], Inl (KeyError ''samples''))"
    by (intro main_parse_error parse_without_samples [of kvs run_items w runs]) simp_all
qed

theorem config_loader_rejects_witness:
  "(\<exists>cfg. parse_config_file example_world ''config.yaml'' example_config = Inr cfg)
   \<and> (\<exists>kvs rs ss. example_config = PDict kvs \<and> map_of kvs ''runs'' = Some rs
         \<and> map_of kvs ''samples'' = Some ss)
   \<and> main example_world ''/project'' ''config.yaml''
        (PDict [(''runs'', PNone), (''samples'', PDict [])]) =
       ([], Inl (AttributeError ''items''))
   \<and> main example_world ''/project'' ''config.yaml'' (PDict [(''samples'', PDict [])]) =
       ([], Inl (KeyError ''runs''))
   \<and> main example_world ''/project'' ''config.yaml''
        (PDict [(''runs'', PDict [(''run2'', PDict [(''path'', PStr ''/data/run2''),
                                                    (''is_compressed'', PBool False),
                                                    (''simple_csv'', PStr ''/data/run2.csv'')])])]) =
       ([], Inl (KeyError ''samples''))"
proof -
  have null_runs: "parse_config_file example_world ''config.yaml''
      (PDict [(''runs'', PNone), (''samples'', PDict [])]) = Inl (AttributeError ''items'')"
    by (simp add: parse_config_file_def)
  have no_runs: "map_of [(''samples'', PDict [])] ''runs'' = None" by simp
  have no_samples:
    "map_of [(''runs'', PDict [(''run2'', PDict [(''path'', PStr ''/data/run2''),
        (''is_compressed'', PBool False), (''simple_csv'', PStr ''/data/run2.csv'')])])] ''runs'' =
       Some (PDict [(''run2'', PDict [(''path'', PStr ''/data/run2''),
        (''is_compressed'', PBool False), (''simple_csv'', PStr ''/data/run2.csv'')])])
     \<and> collect (\<lambda>(name, cfg). Run_init example_world name cfg)
         [(''run2'', PDict [(''path'', PStr ''/data/run2''), (''is_compressed'', PBool False),
                            (''simple_csv'', PStr ''/data/run2.csv'')])] = Inr [local_run]
     \<and> map_of [(''runs'', PDict [(''run2'', PDict [(''path'', PStr ''/data/run2''),
        (''is_compressed'', PBool False), (''simple_csv'', PStr ''/data/run2.csv'')])])] ''samples'' = None"
    using example_runs by simp
  show ?thesis
    using config_loader_rejects [where w = example_world and config_file = "''config.yaml''"
        and doc = example_config]
      config_loader_rejects [where w = example_world and config_file = "''config.yaml''"
        and doc = "PDict [(''runs'', PNone), (''samples'', PDict [])]"
        and e = "AttributeError ''items''" and project_dir = "''/project''"]
      config_loader_rejects [where w = example_world and config_file = "''config.yaml''"
        and project_dir = "''/project''" and kvs = "[(''samples'', PDict [])]"]
      config_loader_rejects [where w = example_world and config_file = "''config.yaml''"
        and project_dir = "''/project''"
        and kvs = "[(''runs'', PDict [(''run2'', PDict [(''path'', PStr ''/data/run2''),
           (''is_compressed'', PBool False), (''simple_csv'', PStr ''/data/run2.csv'')])])]"
        and run_items = "[(''run2'', PDict [(''path'', PStr ''/data/run2''),
           (''is_compressed'', PBool False), (''simple_csv'', PStr ''/data/run2.csv'')])]"
        and runs = "[local_run]"]
      example_parse null_runs no_runs no_samples
    by blast
qed



section \<open>Binding fastq paths to libraries\<close>

lemma add_fastq_path_raises: "add_fastq_path w lib p = Inl (AttributeError ''fastq_path'')"
  by (simp add: add_fastq_path_def getattr_check_def Library_attrs_def)

lemma name_in_libraries_False: "name_in_libraries name libs = Inr found \<Longrightarrow> \<not> found"
  by (auto simp: name_in_libraries_def value_equals_sample_def list_ex_iff split: option.splits)

lemma bind_libraries_same:
  "bind_libraries w run libs = Inr (run', libs') \<Longrightarrow> libs' = libs"
proof (induction libs arbitrary: run run' libs')
  case Nil
  then show ?case by simp
next
  case (Cons lib libs)
  from Cons.prems obtain declared run1 found lib1 run2 rest' where
    "Run_libraries w run = Inr (declared, run1)"
    "name_in_libraries (l_name lib) declared = Inr found"
    "(if found then add_fastq_path w lib (option_value (r_fastq_path run1)) else Inr lib) = Inr lib1"
    "bind_libraries w run1 libs = Inr (run2, rest')"
    "libs' = lib1 # rest'"
    by (auto split: sum.splits prod.splits)
  moreover from this have "\<not> found" using name_in_libraries_False by blast
  ultimately show ?case using Cons.IH by auto
qed

lemma libraries_stored:
  "libraries s = Inr (libs, s') \<Longrightarrow> stored_paths (s'\<lparr>s_libraries := Some libs\<rparr>) = stored_paths s"
  by (auto simp: stored_paths_def libraries_def Let_def split: option.splits sum.splits)

text \<open>
  Claim C1, at a run whose simple CSV declares the library \<^verbatim>\<open>s1_gex\<close> and a sample
  that has this library: the binder does not append the run's fastq path. Reading
  \<^verbatim>\<open>run.libraries\<close> raises \<open>TypeError\<close>, because \<^verbatim>\<open>_parse_simple_csv\<close> calls
  \<^verbatim>\<open>Sample\<close> with a keyword \<^verbatim>\<open>index\<close> that \<^verbatim>\<open>__init__\<close> does not take; and
  \<^verbatim>\<open>add_fastq_path\<close> itself raises \<open>AttributeError\<close>, because it reads
  \<^verbatim>\<open>self.fastq_path\<close> where the list is \<^verbatim>\<open>self.fastq_paths\<close>.
\<close>

theorem binder_raises:
  "bind_samples example_world demultiplexed_run [fresh_sample] = Inl TypeError
   \<and> add_fastq_path example_world (Library_init (PStr ''s1_gex'') ''Gene Expression'')
        (PStr ''/project/cellranger/mkfastq/run2/outs/fastq_path'') =
       Inl (AttributeError ''fastq_path'')"
  by (simp add: add_fastq_path_raises demultiplexed_run_def local_run_def fresh_sample_def
      Sample_init_def libraries_def Library_init_def Run_libraries_def parse_libraries_def
      parse_simple_csv_def example_world_def Sample_call_index Let_def)

text \<open>
  Whenever the binder returns for a run, every library of every sample stores the paths
  that it stored before: no path is ever appended.
\<close>

theorem binder_appends_nothing:
  "bind_samples w run samples = Inr (run', samples') \<Longrightarrow>
   map stored_paths samples' = map stored_paths samples"
proof (induction samples arbitrary: run run' samples')
  case Nil
  then show ?case by simp
next
  case (Cons s samples)
  from Cons.prems obtain libs s1 run1 libs1 run2 rest' where
    l: "libraries s = Inr (libs, s1)" and
    b: "bind_libraries w run libs = Inr (run1, libs1)" and
    r: "bind_samples w run1 samples = Inr (run2, rest')" and
    e: "samples' = s1\<lparr>s_libraries := Some libs1\<rparr> # rest'"
    by (auto split: sum.splits prod.splits)
  from bind_libraries_same [OF b] have "libs1 = libs" .
  with libraries_stored [OF l] Cons.IH [OF r] e show ?case by simp
qed

lemma empty_csv_binder:
  "bind_samples (example_world\<lparr>csv_rows := \<lambda>f. []\<rparr>) demultiplexed_run [fresh_sample] =
     Inr (demultiplexed_run\<lparr>r_libraries := Some []\<rparr>,
          [fresh_sample\<lparr>s_libraries := Some [Library_init (PStr ''s1_gex'') ''Gene Expression'']\<rparr>])"
  by (simp add: demultiplexed_run_def local_run_def fresh_sample_def
      Sample_init_def libraries_def Library_init_def Run_libraries_def parse_libraries_def
      parse_simple_csv_def example_world_def name_in_libraries_def Let_def)

theorem binder_appends_nothing_witness:
  "bind_samples (example_world\<lparr>csv_rows := \<lambda>f. []\<rparr>) demultiplexed_run [fresh_sample] =
     Inr (demultiplexed_run\<lparr>r_libraries := Some []\<rparr>,
          [fresh_sample\<lparr>s_libraries := Some [Library_init (PStr ''s1_gex'') ''Gene Expression'']\<rparr>])
   \<and> map stored_paths
        [fresh_sample\<lparr>s_libraries := Some [Library_init (PStr ''s1_gex'') ''Gene Expression'']\<rparr>] =
      map stored_paths [fresh_sample]"
  by (rule conjI [OF empty_csv_binder binder_appends_nothing [OF empty_csv_binder]])


section \<open>Aggregation\<close>

text \<open>
  Claim C6, at a group of one sample as \<^verbatim>\<open>Config\<close> builds it: \<^verbatim>\<open>cellranger_aggr\<close>
  raises \<open>AttributeError\<close> for \<^verbatim>\<open>count_path\<close> before it runs any command, so there
  is no invocation and no output path to record; and for a group without samples the
  command that it runs is the \<^verbatim>\<open>count\<close> mode of the binary, with the default
  normalization \<^verbatim>\<open>mapped\<close>.
\<close>

theorem aggr_raises:
  "cellranger_aggr w [Sample_init name library_dict g v f] group_id aggr_dir
       normalize_arg cellranger_arg log_dir =
     ([], Inl (AttributeError ''count_path''))
   \<and> commands (fst (cellranger_aggr example_world [] ''g1'' ''/project/aggr'' None None None)) =
     [''cd '' @ quoted ''/project/aggr'' @ '' && cellranger count --id g1 --csv ''
        @ quoted ''/project/aggr/aggr.csv'' @ '' --normalize mapped'']"
  by (simp add: cellranger_aggr_def make_aggr_csv_def aggr_line_def Sample_init_def and_then_def
      log_outputs_def example_world_def path_join_def Let_def)

text \<open>
  Claim C7, at any group whose first sample is as \<^verbatim>\<open>Sample.__init__\<close> leaves it:
  \<^verbatim>\<open>_make_aggr_csv\<close> writes no manifest; it raises \<open>AttributeError\<close> for
  \<^verbatim>\<open>count_path\<close>, and for \<^verbatim>\<open>id\<close> once a count path has been assigned.
\<close>

theorem aggr_csv_raises:
  "make_aggr_csv w (Sample_init name library_dict g v f # rest) aggr_dir =
     ([], Inl (AttributeError ''count_path''))
   \<and> make_aggr_csv w ((Sample_init name library_dict g v f)\<lparr>s_count_path := Some p\<rparr> # rest) aggr_dir =
     ([], Inl (AttributeError ''id''))"
  by (simp add: make_aggr_csv_def aggr_line_def Sample_init_def Let_def)

text \<open>
  For samples that all carry an \<^verbatim>\<open>id\<close> and a \<^verbatim>\<open>count_path\<close>, \<^verbatim>\<open>_make_aggr_csv\<close>
  writes the header row \<^verbatim>\<open>library_id,molecule_h5\<close> and one row per sample, in order.
\<close>

theorem aggr_csv_rows:
  assumes "list_all (\<lambda>s. s_count_path s \<noteq> None \<and> s_id s \<noteq> None) samples"
  shows "make_aggr_csv w samples aggr_dir =
     ([WriteFile (path_join aggr_dir ''aggr.csv'')
         (join_lines (''library_id,molecule_h5'' # map (aggr_row w) samples))],
      Inr (path_join aggr_dir ''aggr.csv''))"
proof -
  have "collect (aggr_line w) samples = Inr (map (aggr_row w) samples)"
    using assms by (induction samples) (auto simp: aggr_line_def aggr_row_def Let_def)
  then show ?thesis by (simp add: make_aggr_csv_def Let_def)
qed

theorem aggr_csv_rows_witness:
  "list_all (\<lambda>s. s_count_path s \<noteq> None \<and> s_id s \<noteq> None) [counted_sample]
   \<and> make_aggr_csv example_world [counted_sample] ''/project/aggr'' =
     ([WriteFile ''/project/aggr/aggr.csv''
         ''library_id,molecule_h5\<newline>s1,/project/count/s1/outs/molecule_info.h5''],
      Inr ''/project/aggr/aggr.csv'')"
proof -
  have h: "list_all (\<lambda>s. s_count_path s \<noteq> None \<and> s_id s \<noteq> None) [counted_sample]"
    by (simp add: counted_sample_def)
  show ?thesis
    using aggr_csv_rows [OF h, of example_world "''/project/aggr''"] h
    by (simp add: aggr_row_def counted_sample_def path_join_def)
qed


section \<open>Samples with one name\<close>

text \<open>
  Claim C9, at two \<^verbatim>\<open>Sample\<close> objects with the name \<^verbatim>\<open>s1\<close>, at the addresses 0 and
  1: their names and their hashes are equal, and they do not compare equal.
\<close>

theorem same_name_not_equal:
  "Sample_hash w (0, Sample_init (PStr ''s1'') d g v f) =
     Sample_hash w (1, Sample_init (PStr ''s1'') d' g' v' f')
   \<and> s_name (Sample_init (PStr ''s1'') d g v f) = s_name (Sample_init (PStr ''s1'') d' g' v' f')
   \<and> \<not> Sample_eq (0, Sample_init (PStr ''s1'') d g v f) (1, Sample_init (PStr ''s1'') d' g' v' f')"
  by (simp add: Sample_hash_def Sample_eq_def Sample_init_def)


section \<open>The pipeline as a whole\<close>

lemma and_then_fails:
  "(\<And>x. \<exists>e. snd (f x) = Inl e) \<Longrightarrow> \<exists>e. snd (and_then m f) = Inl e"
proof -
  assume f: "\<And>x. \<exists>e. snd (f x) = Inl e"
  obtain acts r where m: "m = (acts, r)" by (cases m)
  show ?thesis
  proof (cases r)
    case (Inl e)
    then show ?thesis by (simp add: m and_then_def)
  next
    case (Inr x)
    from f [of x] obtain e where "snd (f x) = Inl e" ..
    then show ?thesis by (cases "f x") (simp add: m Inr and_then_def)
  qed
qed

lemma parse_no_ops: "parse_config_file w config_file doc = Inr cfg \<Longrightarrow> c_ops cfg = None"
  by (auto simp: parse_config_file_def split: sum.splits)

text \<open>
  No run of \<^verbatim>\<open>main\<close> gets past the head of its \<^verbatim>\<open>count\<close> loop: it ends with an
  exception there at the latest, since \<^verbatim>\<open>cfg.ops\<close> reads an attribute that a
  \<^verbatim>\<open>Config\<close> never has. The aggregation loop, which comes later, is never reached.
\<close>

theorem main_never_completes: "\<exists>e. snd (main w project_dir config_file doc) = Inl e"
proof (cases "parse_config_file w config_file doc")
  case (Inl e)
  then show ?thesis by (simp add: main_def and_then_def)
next
  case (Inr cfg)
  then have "Config_ops cfg = Inl (AttributeError ''_ops'')"
    using parse_no_ops by (simp add: Config_ops_def)
  then show ?thesis
    unfolding main_def
    apply (simp add: Inr and_then_def [of "([], Inr cfg)"])
    apply (intro and_then_fails)
    apply simp
    done
qed

end
